theory Spec2Isabelle
  imports Complex_Main "HOL-Library.Word"
begin

section \<open>Strings and values of the host language\<close>

text \<open>
  A JavaScript string is a sequence of 16-bit code units. \<open>str\<close> turns an ASCII literal
  into such a sequence, so that the keys and constants of \<^verbatim>\<open>index.js\<close> can be
  written as they are in the source.
\<close>

type_synonym jsstring = "16 word list"

definition str :: "string \<Rightarrow> jsstring" where
  "str s = map (\<lambda>c. of_nat (of_char c)) s"

text \<open>The exceptions the library can raise; none of them is caught by \<^verbatim>\<open>index.js\<close>
  (the only \<^verbatim>\<open>try\<close> is the one around \<^verbatim>\<open>JSON.parse\<close>).\<close>

datatype error = TypeError | URIError

text \<open>
  The values \<^verbatim>\<open>JSON.parse\<close> can produce, and \<^verbatim>\<open>undefined\<close>. \<open>Num r\<close> stands for
  the double nearest to the rational \<open>r\<close> (the exact value of the literal); the library
  never computes with a number, it only tests it for truthiness and copies it.
  An object is its list of own properties; \<open>set_prop\<close> keeps one entry per key.
\<close>

datatype jsval =
    Undefined
  | Null
  | Bool bool
  | Num rat
  | Str jsstring
  | Arr "jsval list"
  | Obj "(jsstring \<times> jsval) list"

fun set_prop :: "jsstring \<Rightarrow> 'v \<Rightarrow> (jsstring \<times> 'v) list \<Rightarrow> (jsstring \<times> 'v) list" where
  "set_prop k v [] = [(k, v)]"
| "set_prop k v ((k', v') # ps) =
     (if k' = k then (k, v) # ps else (k', v') # set_prop k v ps)"

text \<open>
  ToBoolean. A number is falsy when its double is \<open>0\<close>: the literal rounds to zero
  exactly when its magnitude is at most \<open>2\<^sup>-\<^sup>1\<^sup>0\<^sup>7\<^sup>5\<close>, half the least positive double
  (the tie goes to the even neighbour, which is zero).
\<close>

fun truthy :: "jsval \<Rightarrow> bool" where
  "truthy Undefined = False"
| "truthy Null = False"
| "truthy (Bool b) = b"
| "truthy (Num r) = (1 < \<bar>r\<bar> * 2 ^ 1075)"
| "truthy (Str s) = (s \<noteq> [])"
| "truthy (Arr xs) = True"
| "truthy (Obj ps) = True"

text \<open>
  \<^verbatim>\<open>reply[key]\<close>, for a key that no built-in prototype defines (the five keys read by
  \<^verbatim>\<open>interpretReply\<close> are such): reading a property of \<^verbatim>\<open>null\<close> or \<^verbatim>\<open>undefined\<close>
  raises a TypeError, an object answers with its own property, and every other value
  (a primitive string, number or boolean, an array) answers \<^verbatim>\<open>undefined\<close>.
\<close>

fun get_member :: "jsval \<Rightarrow> jsstring \<Rightarrow> error + jsval" where
  "get_member Undefined k = Inl TypeError"
| "get_member Null k = Inl TypeError"
| "get_member (Obj ps) k = Inr (case map_of ps k of None \<Rightarrow> Undefined | Some v \<Rightarrow> v)"
| "get_member v k = Inr Undefined"

section \<open>\<^verbatim>\<open>JSON.parse\<close>\<close>

text \<open>
  The platform's parser, after the JSON grammar of ECMA-404: a lexer from code units to
  tokens and a stack machine from tokens to a value. \<open>None\<close> is the SyntaxError.
\<close>

datatype token =
    TLBrace | TRBrace | TLBrack | TRBrack | TColon | TComma
  | TStr jsstring | TNum rat | TTrue | TFalse | TNull

definition is_ws :: "16 word \<Rightarrow> bool" where
  "is_ws c = (c = 0x20 \<or> c = 0x09 \<or> c = 0x0A \<or> c = 0x0D)"

definition is_digit :: "16 word \<Rightarrow> bool" where
  "is_digit c = (0x30 \<le> c \<and> c \<le> 0x39)"

definition hex_val :: "16 word \<Rightarrow> nat option" where
  "hex_val c =
     (if 0x30 \<le> c \<and> c \<le> 0x39 then Some (unat c - 0x30)
      else if 0x41 \<le> c \<and> c \<le> 0x46 then Some (unat c - 0x41 + 10)
      else if 0x61 \<le> c \<and> c \<le> 0x66 then Some (unat c - 0x61 + 10)
      else None)"

definition hex4 :: "16 word \<Rightarrow> 16 word \<Rightarrow> 16 word \<Rightarrow> 16 word \<Rightarrow> 16 word option" where
  "hex4 a b c d =
     (case (hex_val a, hex_val b, hex_val c, hex_val d) of
        (Some x, Some y, Some z, Some w) \<Rightarrow> Some (of_nat (((x * 16 + y) * 16 + z) * 16 + w))
      | _ \<Rightarrow> None)"

text \<open>The character after a backslash: \<^verbatim>\<open>" \ / b f n r t\<close>.\<close>

definition simple_escape :: "16 word \<Rightarrow> 16 word option" where
  "simple_escape e =
     (if e = 0x22 then Some 0x22
      else if e = 0x5C then Some 0x5C
      else if e = 0x2F then Some 0x2F
      else if e = 0x62 then Some 0x08
      else if e = 0x66 then Some 0x0C
      else if e = 0x6E then Some 0x0A
      else if e = 0x72 then Some 0x0D
      else if e = 0x74 then Some 0x09
      else None)"

text \<open>One character of a string literal that is not the closing quote: an escape
  sequence or a plain code unit (control characters are not allowed), and what follows.\<close>

definition string_char :: "16 word \<Rightarrow> jsstring \<Rightarrow> (16 word \<times> jsstring) option" where
  "string_char c cs =
     (if c = 0x5C then
        (case cs of
           [] \<Rightarrow> None
         | e # cs' \<Rightarrow>
             if e = 0x75 then
               (case cs' of
                  h1 # h2 # h3 # h4 # cs'' \<Rightarrow>
                    (case hex4 h1 h2 h3 h4 of None \<Rightarrow> None | Some u \<Rightarrow> Some (u, cs''))
                | _ \<Rightarrow> None)
             else
               (case simple_escape e of None \<Rightarrow> None | Some u \<Rightarrow> Some (u, cs')))
      else if c < 0x20 then None
      else Some (c, cs))"

lemma string_char_shorter:
  "string_char c cs = Some (u, rest) \<Longrightarrow> length rest \<le> length cs"
  unfolding string_char_def
  by (simp split: if_splits list.splits option.splits)

text \<open>The rest of a string literal, after the opening quote: the decoded string and
  what follows the closing quote.\<close>

function lex_string :: "jsstring \<Rightarrow> jsstring \<Rightarrow> (jsstring \<times> jsstring) option" where
  "lex_string acc [] = None"
| "lex_string acc (c # cs) =
     (if c = 0x22 then Some (rev acc, cs)
      else case string_char c cs of
             None \<Rightarrow> None
           | Some (u, rest) \<Rightarrow> lex_string (u # acc) rest)"
  by pat_completeness auto
termination
  by (relation "measure (\<lambda>(acc, cs). length cs)")
     (auto dest: string_char_shorter intro: le_imp_less_Suc)

definition digits_val :: "jsstring \<Rightarrow> nat" where
  "digits_val ds = foldl (\<lambda>n d. 10 * n + (unat d - 0x30)) 0 ds"

text \<open>
  A number literal: an optional minus, an integer part without a leading zero, an
  optional fraction, an optional exponent. Each part gives its digits and the input
  after it; \<open>lex_number\<close> gives the literal's exact value.
\<close>

definition lex_int :: "jsstring \<Rightarrow> (jsstring \<times> jsstring) option" where
  "lex_int s =
     (let ip = takeWhile is_digit s
      in if ip = [] \<or> (1 < length ip \<and> hd ip = 0x30) then None
         else Some (ip, dropWhile is_digit s))"

definition lex_frac :: "jsstring \<Rightarrow> (jsstring \<times> jsstring) option" where
  "lex_frac s =
     (case s of
        [] \<Rightarrow> Some ([], s)
      | c # cs \<Rightarrow>
          if c = 0x2E then
            (if takeWhile is_digit cs = [] then None
             else Some (takeWhile is_digit cs, dropWhile is_digit cs))
          else Some ([], s))"

definition lex_exp :: "jsstring \<Rightarrow> ((bool \<times> jsstring) \<times> jsstring) option" where
  "lex_exp s =
     (case s of
        [] \<Rightarrow> Some ((False, []), s)
      | c # cs \<Rightarrow>
          if c = 0x65 \<or> c = 0x45 then
            (let eneg = (cs \<noteq> [] \<and> hd cs = 0x2D);
                 epos = (cs \<noteq> [] \<and> hd cs = 0x2B);
                 ds = (if eneg \<or> epos then tl cs else cs)
             in if takeWhile is_digit ds = [] then None
                else Some ((eneg, takeWhile is_digit ds), dropWhile is_digit ds))
          else Some ((False, []), s))"

definition number_value :: "bool \<Rightarrow> jsstring \<Rightarrow> jsstring \<Rightarrow> bool \<Rightarrow> jsstring \<Rightarrow> rat" where
  "number_value neg ip fp eneg ep =
     (let m = of_nat (digits_val ip) + of_nat (digits_val fp) / 10 ^ length fp;
          r = (if eneg then m / 10 ^ digits_val ep else m * 10 ^ digits_val ep)
      in if neg then - r else r)"

definition lex_number :: "jsstring \<Rightarrow> (rat \<times> jsstring) option" where
  "lex_number s =
     (let neg = (s \<noteq> [] \<and> hd s = 0x2D)
      in case lex_int (if neg then tl s else s) of
           None \<Rightarrow> None
         | Some (ip, s2) \<Rightarrow>
             (case lex_frac s2 of
                None \<Rightarrow> None
              | Some (fp, s3) \<Rightarrow>
                  (case lex_exp s3 of
                     None \<Rightarrow> None
                   | Some ((eneg, ep), s4) \<Rightarrow> Some (number_value neg ip fp eneg ep, s4))))"

lemma lex_string_shorter:
  "lex_string acc cs = Some (s, rest) \<Longrightarrow> length rest < length cs"
proof (induction acc cs rule: lex_string.induct)
  case (1 acc)
  then show ?case by simp
next
  case (2 acc c cs)
  show ?case
  proof (cases "c = 0x22")
    case True
    with "2.prems" show ?thesis by simp
  next
    case False
    with "2.prems" obtain u r where sc: "string_char c cs = Some (u, r)"
      and rec: "lex_string (u # acc) r = Some (s, rest)"
      by (auto split: option.splits)
    from "2.IH" [OF False sc refl rec] have "length rest < length r" .
    with string_char_shorter [OF sc] show ?thesis by simp
  qed
qed

lemma lex_int_shorter: "lex_int s = Some (ip, rest) \<Longrightarrow> length rest < length s"
proof -
  assume a: "lex_int s = Some (ip, rest)"
  then have ne: "takeWhile is_digit s \<noteq> []" and r: "rest = dropWhile is_digit s"
    by (simp_all add: lex_int_def Let_def split: if_splits)
  have "length s = length (takeWhile is_digit s) + length (dropWhile is_digit s)"
    by (metis length_append takeWhile_dropWhile_id)
  with ne r show ?thesis by simp
qed

lemma lex_frac_shorter: "lex_frac s = Some (fp, rest) \<Longrightarrow> length rest \<le> length s"
  using length_dropWhile_le [of is_digit "tl s"]
  by (cases s) (auto simp: lex_frac_def split: if_splits)

lemma lex_exp_shorter: "lex_exp s = Some (e, rest) \<Longrightarrow> length rest \<le> length s"
proof (cases s)
  case Nil
  assume "lex_exp s = Some (e, rest)"
  with Nil show ?thesis by (simp add: lex_exp_def)
next
  case (Cons c cs)
  assume a: "lex_exp s = Some (e, rest)"
  have 1: "length (dropWhile is_digit cs) \<le> length cs" by (rule length_dropWhile_le)
  have 2: "length (dropWhile is_digit (tl cs)) \<le> length cs"
    using length_dropWhile_le [of is_digit "tl cs"] by simp
  from a Cons 1 2 show ?thesis
    by (auto simp: lex_exp_def Let_def split: if_splits)
qed

lemma lex_number_shorter:
  assumes "lex_number s = Some (r, rest)"
  shows "length rest < length s"
proof -
  from assms obtain ip s2 fp s3 e where
    i: "lex_int (if s \<noteq> [] \<and> hd s = 0x2D then tl s else s) = Some (ip, s2)"
    and f: "lex_frac s2 = Some (fp, s3)" and x: "lex_exp s3 = Some (e, rest)"
    by (auto simp: lex_number_def Let_def split: option.splits)
  have "length (if s \<noteq> [] \<and> hd s = 0x2D then tl s else s) \<le> length s" by simp
  with lex_int_shorter [OF i] lex_frac_shorter [OF f] lex_exp_shorter [OF x]
  show ?thesis by linarith
qed

definition cons_tok :: "token \<Rightarrow> token list option \<Rightarrow> token list option" where
  "cons_tok t r = map_option ((#) t) r"

function lex :: "jsstring \<Rightarrow> token list option" where
  "lex [] = Some []"
| "lex (c # cs) =
     (if is_ws c then lex cs
      else if c = 0x7B then cons_tok TLBrace (lex cs)
      else if c = 0x7D then cons_tok TRBrace (lex cs)
      else if c = 0x5B then cons_tok TLBrack (lex cs)
      else if c = 0x5D then cons_tok TRBrack (lex cs)
      else if c = 0x3A then cons_tok TColon (lex cs)
      else if c = 0x2C then cons_tok TComma (lex cs)
      else if c = 0x22 then
        (case lex_string [] cs of
           None \<Rightarrow> None
         | Some (s, rest) \<Rightarrow> cons_tok (TStr s) (lex rest))
      else if c = 0x2D \<or> is_digit c then
        (case lex_number (c # cs) of
           None \<Rightarrow> None
         | Some (r, rest) \<Rightarrow> cons_tok (TNum r) (lex rest))
      else if take 4 (c # cs) = str ''true'' then cons_tok TTrue (lex (drop 3 cs))
      else if take 5 (c # cs) = str ''false'' then cons_tok TFalse (lex (drop 4 cs))
      else if take 4 (c # cs) = str ''null'' then cons_tok TNull (lex (drop 3 cs))
      else None)"
  by pat_completeness auto
termination
  by (relation "measure length")
     (auto dest: lex_string_shorter lex_number_shorter intro: le_imp_less_Suc)

text \<open>
  The parser's stack: an array with the elements read so far, an object with the
  members read so far, and an object whose next member's key has been read.
\<close>

datatype frame =
    FArr "jsval list"
  | FObj "(jsstring \<times> jsval) list"
  | FKey "(jsstring \<times> jsval) list" jsstring

datatype pstate =
    PValue | PArrStart | PArrNext | PObjStart | PObjKey | PColon | PObjNext
  | PDone jsval

text \<open>A value is complete: it is the whole text, the next element of the enclosing
  array, or the value of the pending key (a repeated key keeps the last value).\<close>

fun complete :: "jsval \<Rightarrow> frame list \<Rightarrow> (pstate \<times> frame list) option" where
  "complete v [] = Some (PDone v, [])"
| "complete v (FArr xs # st) = Some (PArrNext, FArr (xs @ [v]) # st)"
| "complete v (FKey ps k # st) = Some (PObjNext, FObj (set_prop k v ps) # st)"
| "complete v (FObj ps # st) = None"

fun begin_value :: "token \<Rightarrow> frame list \<Rightarrow> (pstate \<times> frame list) option" where
  "begin_value (TStr s) st = complete (Str s) st"
| "begin_value (TNum r) st = complete (Num r) st"
| "begin_value TTrue st = complete (Bool True) st"
| "begin_value TFalse st = complete (Bool False) st"
| "begin_value TNull st = complete Null st"
| "begin_value TLBrack st = Some (PArrStart, FArr [] # st)"
| "begin_value TLBrace st = Some (PObjStart, FObj [] # st)"
| "begin_value t st = None"

fun close_array :: "frame list \<Rightarrow> (pstate \<times> frame list) option" where
  "close_array (FArr xs # st) = complete (Arr xs) st"
| "close_array st = None"

fun close_object :: "frame list \<Rightarrow> (pstate \<times> frame list) option" where
  "close_object (FObj ps # st) = complete (Obj ps) st"
| "close_object st = None"

fun read_key :: "jsstring \<Rightarrow> frame list \<Rightarrow> (pstate \<times> frame list) option" where
  "read_key k (FObj ps # st) = Some (PColon, FKey ps k # st)"
| "read_key k st = None"

fun step :: "pstate \<Rightarrow> frame list \<Rightarrow> token \<Rightarrow> (pstate \<times> frame list) option" where
  "step PValue st t = begin_value t st"
| "step PArrStart st t = (if t = TRBrack then close_array st else begin_value t st)"
| "step PArrNext st t =
     (if t = TComma then Some (PValue, st)
      else if t = TRBrack then close_array st else None)"
| "step PObjStart st t =
     (case t of TStr k \<Rightarrow> read_key k st | TRBrace \<Rightarrow> close_object st | _ \<Rightarrow> None)"
| "step PObjKey st t = (case t of TStr k \<Rightarrow> read_key k st | _ \<Rightarrow> None)"
| "step PColon st t = (if t = TColon then Some (PValue, st) else None)"
| "step PObjNext st t =
     (if t = TComma then Some (PObjKey, st)
      else if t = TRBrace then close_object st else None)"
| "step (PDone v) st t = None"

fun run :: "pstate \<Rightarrow> frame list \<Rightarrow> token list \<Rightarrow> jsval option" where
  "run p st [] = (case p of PDone v \<Rightarrow> Some v | _ \<Rightarrow> None)"
| "run p st (t # ts) =
     (case step p st t of None \<Rightarrow> None | Some (p', st') \<Rightarrow> run p' st' ts)"

definition JSON_parse :: "jsstring \<Rightarrow> jsval option" where
  "JSON_parse s = (case lex s of None \<Rightarrow> None | Some ts \<Rightarrow> run PValue [] ts)"

definition and_then :: "error + 'a \<Rightarrow> ('a \<Rightarrow> error + 'b) \<Rightarrow> error + 'b" where
  "and_then r f = (case r of Inl e \<Rightarrow> Inl e | Inr x \<Rightarrow> f x)"

section \<open>\<^verbatim>\<open>encodeURIComponent\<close> and \<^verbatim>\<open>querystring.stringify\<close>\<close>

text \<open>The characters \<^verbatim>\<open>encodeURIComponent\<close> leaves as they are: letters, digits and
  \<^verbatim>\<open>- _ . ! ~ * ' ( )\<close>.\<close>

definition uri_unescaped :: "16 word \<Rightarrow> bool" where
  "uri_unescaped c =
     ((0x41 \<le> c \<and> c \<le> 0x5A) \<or> (0x61 \<le> c \<and> c \<le> 0x7A) \<or> (0x30 \<le> c \<and> c \<le> 0x39)
      \<or> c = 0x2D \<or> c = 0x5F \<or> c = 0x2E \<or> c = 0x21 \<or> c = 0x7E
      \<or> c = 0x2A \<or> c = 0x27 \<or> c = 0x28 \<or> c = 0x29)"

text \<open>
  The code point at the head of \<open>c # cs\<close> and the input after it; \<open>None\<close> for an
  unpaired surrogate.
\<close>

definition CodePointAt :: "16 word \<Rightarrow> jsstring \<Rightarrow> (nat \<times> jsstring) option" where
  "CodePointAt c cs =
     (if 0xD800 \<le> c \<and> c \<le> 0xDBFF then
        (case cs of
           [] \<Rightarrow> None
         | d # cs' \<Rightarrow>
             if 0xDC00 \<le> d \<and> d \<le> 0xDFFF
             then Some ((unat c - 0xD800) * 0x400 + (unat d - 0xDC00) + 0x10000, cs')
             else None)
      else if 0xDC00 \<le> c \<and> c \<le> 0xDFFF then None
      else Some (unat c, cs))"

lemma CodePointAt_shorter:
  "CodePointAt c cs = Some (cp, rest) \<Longrightarrow> length rest \<le> length cs"
  unfolding CodePointAt_def
  by (simp split: if_splits list.splits)

definition utf8 :: "nat \<Rightarrow> nat list" where
  "utf8 cp =
     (if cp < 0x80 then [cp]
      else if cp < 0x800 then [0xC0 + cp div 0x40, 0x80 + cp mod 0x40]
      else if cp < 0x10000 then
        [0xE0 + cp div 0x1000, 0x80 + (cp div 0x40) mod 0x40, 0x80 + cp mod 0x40]
      else
        [0xF0 + cp div 0x40000, 0x80 + (cp div 0x1000) mod 0x40,
         0x80 + (cp div 0x40) mod 0x40, 0x80 + cp mod 0x40])"

definition hex_digit :: "nat \<Rightarrow> 16 word" where
  "hex_digit n = (if n < 10 then of_nat (0x30 + n) else of_nat (0x41 + (n - 10)))"

definition percent :: "nat \<Rightarrow> jsstring" where
  "percent b = [0x25, hex_digit (b div 16), hex_digit (b mod 16)]"

definition prepend :: "jsstring \<Rightarrow> error + jsstring \<Rightarrow> error + jsstring" where
  "prepend s r = (case r of Inl e \<Rightarrow> Inl e | Inr t \<Rightarrow> Inr (s @ t))"

text \<open>\<^verbatim>\<open>encodeURIComponent\<close> of a string: an unpaired surrogate raises a URIError.\<close>

function encodeURIComponent :: "jsstring \<Rightarrow> error + jsstring" where
  "encodeURIComponent [] = Inr []"
| "encodeURIComponent (c # cs) =
     (if uri_unescaped c then prepend [c] (encodeURIComponent cs)
      else case CodePointAt c cs of
             None \<Rightarrow> Inl URIError
           | Some (cp, rest) \<Rightarrow>
               prepend (concat (map percent (utf8 cp))) (encodeURIComponent rest))"
  by pat_completeness auto
termination
  by (relation "measure length")
     (auto dest: CodePointAt_shorter intro: le_imp_less_Suc)

text \<open>
  The value of a parameter: a string, or \<^verbatim>\<open>undefined\<close> (\<open>None\<close>) when the descriptor
  lacks the field or the caller omitted the argument. \<^verbatim>\<open>encodeURIComponent\<close> converts
  its argument to a string first; \<^verbatim>\<open>querystring\<close> writes \<^verbatim>\<open>undefined\<close> as the empty
  string.
\<close>

type_synonym params = "(jsstring \<times> jsstring option) list"

definition ToString :: "jsstring option \<Rightarrow> jsstring" where
  "ToString v = (case v of None \<Rightarrow> str ''undefined'' | Some s \<Rightarrow> s)"

definition stringifyPrimitive :: "jsstring option \<Rightarrow> jsstring" where
  "stringifyPrimitive v = (case v of None \<Rightarrow> [] | Some s \<Rightarrow> s)"

text \<open>\<^verbatim>\<open>querystring.escape\<close> percent-encodes like \<^verbatim>\<open>encodeURIComponent\<close>, with the same
  set of characters left alone.\<close>

definition qs_escape :: "jsstring \<Rightarrow> error + jsstring" where
  "qs_escape s = encodeURIComponent s"

fun join_with :: "jsstring \<Rightarrow> jsstring list \<Rightarrow> jsstring" where
  "join_with sep [] = []"
| "join_with sep [x] = x"
| "join_with sep (x # y # ys) = x @ sep @ join_with sep (y # ys)"

fun stringify_fields :: "params \<Rightarrow> error + jsstring list" where
  "stringify_fields [] = Inr []"
| "stringify_fields ((k, v) # ps) =
     and_then (qs_escape k) (\<lambda>ek.
     and_then (qs_escape (stringifyPrimitive v)) (\<lambda>ev.
     and_then (stringify_fields ps) (\<lambda>fs. Inr ((ek @ str ''='' @ ev) # fs))))"

text \<open>\<^verbatim>\<open>querystring.stringify(obj)\<close> for an object whose values are strings or
  \<^verbatim>\<open>undefined\<close>: \<open>escape(key) = escape(value)\<close> for each own key in order, joined
  by \<^verbatim>\<open>&\<close>.\<close>

definition querystring_stringify :: "params \<Rightarrow> error + jsstring" where
  "querystring_stringify ps =
     and_then (stringify_fields ps) (\<lambda>fs. Inr (join_with (str ''&'') fs))"

section \<open>Objects, the network and the continuation\<close>

text \<open>The token response: \<^verbatim>\<open>null\<close> marks a field as absent.\<close>

record token_response =
  accessToken :: jsval
  refreshToken :: jsval
  expires :: jsval

text \<open>
  The provider descriptor, with the fields and types of the data model; \<open>None\<close> is a
  field the descriptor does not have.
\<close>

record provider =
  clientId :: "jsstring option"
  clientSecret :: "jsstring option"
  authUri :: "jsstring option"
  accessTokenUri :: "jsstring option"
  userInfoUri :: "jsstring option"
  scope :: "jsstring option"
  state :: "jsstring option"
  offline :: "bool option"

definition truthy_string :: "jsstring option \<Rightarrow> bool" where
  "truthy_string v = (case v of None \<Rightarrow> False | Some s \<Rightarrow> s \<noteq> [])"

definition truthy_flag :: "bool option \<Rightarrow> bool" where
  "truthy_flag v = (case v of None \<Rightarrow> False | Some b \<Rightarrow> b)"

text \<open>
  Objects live in a heap and are passed by reference (an address is an index into the
  heap): the caller's descriptor, the \<^verbatim>\<open>parameters\<close> mapping of each operation, and the
  \<^verbatim>\<open>response\<close> object of \<^verbatim>\<open>interpretReply\<close>.
\<close>

type_synonym addr = nat

datatype cell =
    ProviderObj provider
  | ParamsObj params
  | TokenObj token_response

text \<open>The \<^verbatim>\<open>options\<close> object handed to \<^verbatim>\<open>https.request\<close>, key by key.\<close>

record options =
  opt_host :: jsstring
  opt_path :: jsstring
  opt_port :: nat
  opt_method :: jsstring
  opt_content_type :: jsstring
  opt_content_length :: nat

text \<open>
  One call of \<^verbatim>\<open>https.request\<close>: its options, the payloads written to the request body
  with \<^verbatim>\<open>req.write\<close>, whether \<^verbatim>\<open>req.end()\<close> was called, and the \<^verbatim>\<open>interpretBody\<close>
  flag that the response handler closes over.
\<close>

record exchange =
  ex_options :: options
  ex_written :: "jsstring list"
  ex_ended :: bool
  ex_interpret :: bool

text \<open>What the continuation is called with: a reference to a token response, or the
  raw body.\<close>

datatype callback_arg = TokenArg addr | BodyArg jsstring

record world =
  heap :: "cell list"
  sent :: "exchange list"
  delivered :: "callback_arg list"

type_synonym 'a prog = "world \<Rightarrow> world \<times> (error + 'a)"

definition ret :: "'a \<Rightarrow> 'a prog" where
  "ret x w = (w, Inr x)"

definition throw :: "error \<Rightarrow> 'a prog" where
  "throw e w = (w, Inl e)"

definition bind :: "'a prog \<Rightarrow> ('a \<Rightarrow> 'b prog) \<Rightarrow> 'b prog" where
  "bind m f w = (case m w of (w', Inl e) \<Rightarrow> (w', Inl e) | (w', Inr x) \<Rightarrow> f x w')"

definition lift :: "error + 'a \<Rightarrow> 'a prog" where
  "lift r w = (w, r)"

text \<open>Reading a field of the descriptor; a reference that is not a descriptor stands
  for a \<^verbatim>\<open>provider\<close> argument that is \<^verbatim>\<open>undefined\<close> or \<^verbatim>\<open>null\<close>.\<close>

definition provider_field :: "addr \<Rightarrow> (provider \<Rightarrow> 'a) \<Rightarrow> 'a prog" where
  "provider_field p f w =
     (if p < length (heap w) then
        (case heap w ! p of ProviderObj pr \<Rightarrow> (w, Inr (f pr)) | _ \<Rightarrow> (w, Inl TypeError))
      else (w, Inl TypeError))"

text \<open>An object literal: a new object at a new address.\<close>

definition new_object :: "cell \<Rightarrow> addr prog" where
  "new_object c w = (w\<lparr>heap := heap w @ [c]\<rparr>, Inr (length (heap w)))"

definition get_params :: "addr \<Rightarrow> params prog" where
  "get_params a w =
     (if a < length (heap w) then
        (case heap w ! a of ParamsObj ps \<Rightarrow> (w, Inr ps) | _ \<Rightarrow> (w, Inl TypeError))
      else (w, Inl TypeError))"

text \<open>\<^verbatim>\<open>parameters[k] = v\<close>, in place.\<close>

definition set_param :: "addr \<Rightarrow> jsstring \<Rightarrow> jsstring option \<Rightarrow> unit prog" where
  "set_param a k v w =
     (if a < length (heap w) then
        (case heap w ! a of
           ParamsObj ps \<Rightarrow> (w\<lparr>heap := (heap w)[a := ParamsObj (set_prop k v ps)]\<rparr>, Inr ())
         | _ \<Rightarrow> (w, Inl TypeError))
      else (w, Inl TypeError))"

definition get_param :: "addr \<Rightarrow> jsstring \<Rightarrow> jsstring option prog" where
  "get_param a k = bind (get_params a) (\<lambda>ps. ret (case map_of ps k of None \<Rightarrow> None | Some v \<Rightarrow> v))"

section \<open>\<^verbatim>\<open>buildQueryString\<close>\<close>

text \<open>The \<^verbatim>\<open>forEach\<close> over \<^verbatim>\<open>Object.keys(parameters)\<close>: each value is replaced, in the
  object itself, by its \<^verbatim>\<open>encodeURIComponent\<close>.\<close>

fun encode_each :: "addr \<Rightarrow> jsstring list \<Rightarrow> unit prog" where
  "encode_each a [] = ret ()"
| "encode_each a (k # ks) =
     bind (get_param a k) (\<lambda>v.
     bind (lift (encodeURIComponent (ToString v))) (\<lambda>s.
     bind (set_param a k (Some s)) (\<lambda>_.
     encode_each a ks)))"

text \<open>\<^verbatim>\<open>buildQueryString\<close> (index.js, lines 149 to 155).\<close>

definition buildQueryString :: "addr \<Rightarrow> jsstring prog" where
  "buildQueryString parameters =
     bind (get_params parameters) (\<lambda>ps.
     bind (encode_each parameters (map fst ps)) (\<lambda>_.
     bind (get_params parameters) (\<lambda>ps'.
     lift (querystring_stringify ps'))))"

section \<open>\<^verbatim>\<open>interpretReply\<close>\<close>

definition update_token :: "addr \<Rightarrow> (token_response \<Rightarrow> token_response) \<Rightarrow> unit prog" where
  "update_token a f w =
     (if a < length (heap w) then
        (case heap w ! a of
           TokenObj t \<Rightarrow> (w\<lparr>heap := (heap w)[a := TokenObj (f t)]\<rparr>, Inr ())
         | _ \<Rightarrow> (w, Inl TypeError))
      else (w, Inl TypeError))"

text \<open>One line \<^verbatim>\<open>if (reply[k]) response.f = reply[k];\<close> of \<^verbatim>\<open>interpretReply\<close>.\<close>

definition assign_if ::
  "jsval \<Rightarrow> jsstring \<Rightarrow> (jsval \<Rightarrow> token_response \<Rightarrow> token_response) \<Rightarrow> addr \<Rightarrow> unit prog" where
  "assign_if reply k upd response =
     bind (lift (get_member reply k)) (\<lambda>v.
     if truthy v then update_token response (upd v) else ret ())"

text \<open>
  \<^verbatim>\<open>interpretReply\<close> (index.js, lines 166 to 187). When \<^verbatim>\<open>JSON.parse\<close> throws, the
  \<^verbatim>\<open>catch\<close> leaves \<open>reply\<close> the body string; the five conditional assignments follow
  in the order of the source. The result is the reference to the \<^verbatim>\<open>response\<close> object.
\<close>

definition interpretReply :: "jsstring \<Rightarrow> addr prog" where
  "interpretReply body =
     bind (new_object (TokenObj \<lparr>accessToken = Null, refreshToken = Null, expires = Null\<rparr>))
       (\<lambda>response.
     let reply = (case JSON_parse body of None \<Rightarrow> Str body | Some v \<Rightarrow> v)
     in bind (assign_if reply (str ''access_token'') (\<lambda>v r. r\<lparr>accessToken := v\<rparr>) response) (\<lambda>_.
        bind (assign_if reply (str ''refresh_token'') (\<lambda>v r. r\<lparr>refreshToken := v\<rparr>) response) (\<lambda>_.
        bind (assign_if reply (str ''state'') (\<lambda>v r. r\<lparr>refreshToken := v\<rparr>) response) (\<lambda>_.
        bind (assign_if reply (str ''expires'') (\<lambda>v r. r\<lparr>expires := v\<rparr>) response) (\<lambda>_.
        bind (assign_if reply (str ''expires_in'') (\<lambda>v r. r\<lparr>expires := v\<rparr>) response) (\<lambda>_.
        ret response))))))"

section \<open>\<^verbatim>\<open>request\<close>\<close>

text \<open>\<^verbatim>\<open>s.replace(pat, rep)\<close> with a string pattern: the first occurrence only.\<close>

fun replace_first :: "jsstring \<Rightarrow> jsstring \<Rightarrow> jsstring \<Rightarrow> jsstring" where
  "replace_first pat rep [] = (if pat = [] then rep else [])"
| "replace_first pat rep (c # cs) =
     (if take (length pat) (c # cs) = pat then rep @ drop (length pat) (c # cs)
      else c # replace_first pat rep cs)"

text \<open>\<^verbatim>\<open>s.indexOf(c)\<close> for a single character: \<open>-1\<close> when there is none.\<close>

fun indexOf :: "16 word \<Rightarrow> jsstring \<Rightarrow> int" where
  "indexOf c [] = - 1"
| "indexOf c (x # xs) =
     (if x = c then 0 else (let i = indexOf c xs in if i < 0 then - 1 else i + 1))"

text \<open>\<^verbatim>\<open>s.substring(start, end)\<close>: both indices are clamped to the string and swapped
  when out of order; \<^verbatim>\<open>s.substring(start)\<close> runs to the end.\<close>

definition substring :: "jsstring \<Rightarrow> int \<Rightarrow> int \<Rightarrow> jsstring" where
  "substring s start fin =
     (let n = int (length s);
          a = max 0 (min start n);
          b = max 0 (min fin n)
      in take (nat (max a b - min a b)) (drop (nat (min a b)) s))"

definition substring_from :: "jsstring \<Rightarrow> int \<Rightarrow> jsstring" where
  "substring_from s start = substring s start (int (length s))"

text \<open>\<^verbatim>\<open>Buffer.byteLength\<close>: the length in UTF-8, an unpaired surrogate counting as the
  three bytes of the replacement character.\<close>

function byteLength :: "jsstring \<Rightarrow> nat" where
  "byteLength [] = 0"
| "byteLength (c # cs) =
     (case CodePointAt c cs of
        None \<Rightarrow> 3 + byteLength cs
      | Some (cp, rest) \<Rightarrow> length (utf8 cp) + byteLength rest)"
  by pat_completeness auto
termination
  by (relation "measure length")
     (auto dest: CodePointAt_shorter intro: le_imp_less_Suc)

text \<open>Calling the continuation: the world records what it was called with.\<close>

definition callback :: "callback_arg \<Rightarrow> unit prog" where
  "callback arg w = (w\<lparr>delivered := delivered w @ [arg]\<rparr>, Inr ())"

text \<open>The handlers of the response: \<^verbatim>\<open>data\<close> appends a chunk to \<open>body\<close> (the chunk as
  the string that \<^verbatim>\<open>body += d\<close> makes of it), \<^verbatim>\<open>end\<close> calls the continuation. \<open>respond\<close> is
  a response that arrives in the given chunks and ends.\<close>

definition on_data :: "jsstring \<Rightarrow> jsstring \<Rightarrow> jsstring" where
  "on_data body d = body @ d"

definition on_end :: "bool \<Rightarrow> jsstring \<Rightarrow> unit prog" where
  "on_end interpretBody body =
     (if interpretBody then bind (interpretReply body) (\<lambda>t. callback (TokenArg t))
      else callback (BodyArg body))"

definition respond :: "exchange \<Rightarrow> jsstring list \<Rightarrow> unit prog" where
  "respond ex chunks = on_end (ex_interpret ex) (foldl on_data [] chunks)"

definition https_request :: "exchange \<Rightarrow> unit prog" where
  "https_request ex w = (w\<lparr>sent := sent w @ [ex]\<rparr>, Inr ())"

text \<open>
  \<^verbatim>\<open>request\<close> (index.js, lines 203 to 240). \<open>uri\<close> is \<open>None\<close> when the descriptor lacks
  the endpoint (\<^verbatim>\<open>uri.replace\<close> then raises a TypeError); the payload is written to the
  request only \<^verbatim>\<open>if (method === 'POST')\<close>.
\<close>

definition request :: "jsstring option \<Rightarrow> jsstring option \<Rightarrow> jsstring \<Rightarrow> bool \<Rightarrow> unit prog" where
  "request uri0 method0 payload interpretBody =
     (let method = (if truthy_string method0 then ToString method0 else str ''POST'')
      in case uri0 of
           None \<Rightarrow> throw TypeError
         | Some u \<Rightarrow>
             (let uri = replace_first (str ''https://'') [] u;
                  opts = \<lparr>opt_host = substring uri 0 (indexOf 0x2F uri),
                          opt_path = substring_from uri (indexOf 0x2F uri),
                          opt_port = 443,
                          opt_method = method,
                          opt_content_type = str ''application/x-www-form-urlencoded'',
                          opt_content_length =
                            (if method = str ''POST'' then byteLength payload else 0)\<rparr>
              in https_request
                   \<lparr>ex_options = opts,
                    ex_written = (if method = str ''POST'' then [payload] else []),
                    ex_ended = True,
                    ex_interpret = interpretBody\<rparr>))"

section \<open>The four public operations\<close>

text \<open>\<^verbatim>\<open>if (provider.f) parameters.k = v;\<close>\<close>

definition set_if :: "bool \<Rightarrow> addr \<Rightarrow> jsstring \<Rightarrow> jsstring option \<Rightarrow> unit prog" where
  "set_if c parameters k v = (if c then set_param parameters k v else ret ())"

text \<open>\<^verbatim>\<open>CreateRedirect\<close> (index.js, lines 27 to 49).\<close>

definition CreateRedirect :: "addr \<Rightarrow> jsstring option \<Rightarrow> jsstring option \<Rightarrow> jsstring prog" where
  "CreateRedirect provider redirectUri locale0 =
     (let locale = (if \<not> truthy_string locale0 then Some (str ''en'') else locale0)
      in bind (provider_field provider clientId) (\<lambda>cid.
         bind (new_object (ParamsObj
                 [(str ''client_id'', cid),
                  (str ''display'', Some (str ''page'')),
                  (str ''locale'', locale),
                  (str ''redirect_uri'', redirectUri),
                  (str ''response_type'', Some (str ''code''))])) (\<lambda>parameters.
         bind (provider_field provider offline) (\<lambda>off.
         bind (set_if (truthy_flag off) parameters (str ''access_type'') (Some (str ''offline''))) (\<lambda>_.
         bind (provider_field provider scope) (\<lambda>sc.
         bind (set_if (truthy_string sc) parameters (str ''scope'') sc) (\<lambda>_.
         bind (provider_field provider state) (\<lambda>st.
         bind (set_if (truthy_string st) parameters (str ''state'') st) (\<lambda>_.
         bind (provider_field provider authUri) (\<lambda>au.
         bind (buildQueryString parameters) (\<lambda>q.
         ret (ToString au @ str ''?'' @ q))))))))))))"

text \<open>\<^verbatim>\<open>AuthenticateByCode\<close> (index.js, lines 63 to 84).\<close>

definition AuthenticateByCode :: "addr \<Rightarrow> jsstring option \<Rightarrow> jsstring option \<Rightarrow> unit prog" where
  "AuthenticateByCode provider redirectUri code =
     bind (provider_field provider clientId) (\<lambda>cid.
     bind (provider_field provider clientSecret) (\<lambda>sec.
     bind (new_object (ParamsObj
             [(str ''client_id'', cid),
              (str ''client_secret'', sec),
              (str ''redirect_uri'', redirectUri),
              (str ''code'', code),
              (str ''grant_type'', Some (str ''authorization_code''))])) (\<lambda>parameters.
     bind (provider_field provider scope) (\<lambda>sc.
     bind (set_if (truthy_string sc) parameters (str ''scope'') sc) (\<lambda>_.
     bind (provider_field provider state) (\<lambda>st.
     bind (set_if (truthy_string st) parameters (str ''state'') st) (\<lambda>_.
     bind (provider_field provider accessTokenUri) (\<lambda>uri.
     bind (buildQueryString parameters) (\<lambda>payload.
     request uri (Some (str ''POST'')) payload True)))))))))"

text \<open>\<^verbatim>\<open>AuthenticateByToken\<close> (index.js, lines 96 to 116).\<close>

definition AuthenticateByToken :: "addr \<Rightarrow> jsstring option \<Rightarrow> unit prog" where
  "AuthenticateByToken provider refreshToken0 =
     bind (provider_field provider clientId) (\<lambda>cid.
     bind (provider_field provider clientSecret) (\<lambda>sec.
     bind (new_object (ParamsObj
             [(str ''client_id'', cid),
              (str ''client_secret'', sec),
              (str ''refresh_token'', refreshToken0),
              (str ''grant_type'', Some (str ''refresh_token''))])) (\<lambda>parameters.
     bind (provider_field provider scope) (\<lambda>sc.
     bind (set_if (truthy_string sc) parameters (str ''scope'') sc) (\<lambda>_.
     bind (provider_field provider state) (\<lambda>st.
     bind (set_if (truthy_string st) parameters (str ''state'') st) (\<lambda>_.
     bind (provider_field provider accessTokenUri) (\<lambda>uri.
     bind (buildQueryString parameters) (\<lambda>payload.
     request uri (Some (str ''POST'')) payload True)))))))))"

text \<open>\<^verbatim>\<open>GetUserInfo\<close> (index.js, lines 128 to 138): the call of \<^verbatim>\<open>request\<close> has no fifth
  argument, so \<^verbatim>\<open>interpretBody\<close> is \<^verbatim>\<open>undefined\<close>, which is falsy.\<close>

definition GetUserInfo :: "addr \<Rightarrow> jsstring option \<Rightarrow> unit prog" where
  "GetUserInfo provider accessToken0 =
     bind (new_object (ParamsObj [(str ''access_token'', accessToken0)])) (\<lambda>parameters.
     bind (provider_field provider userInfoUri) (\<lambda>uri.
     bind (buildQueryString parameters) (\<lambda>payload.
     request uri (Some (str ''GET'')) payload False)))"

section \<open>Frame conditions\<close>

text \<open>
  A program preserves the first \<open>n\<close> objects of the heap: whatever its result, they are
  still there and unchanged when it stops. With \<open>n\<close> the size of the heap at the call,
  these are all the objects that existed before the call.
\<close>

definition preserves :: "nat \<Rightarrow> 'a prog \<Rightarrow> bool" where
  "preserves n m =
     (\<forall>w w' r. n \<le> length (heap w) \<longrightarrow> m w = (w', r) \<longrightarrow>
        n \<le> length (heap w') \<and> take n (heap w') = take n (heap w))"

section \<open>Properties of the reply interpreter\<close>

lemma interpretReply_fields:
  assumes "reply = (case JSON_parse body of None \<Rightarrow> Str body | Some v \<Rightarrow> v)"
    and "get_member reply (str ''access_token'') = Inr v1"
    and "get_member reply (str ''refresh_token'') = Inr v2"
    and "get_member reply (str ''state'') = Inr v3"
    and "get_member reply (str ''expires'') = Inr v4"
    and "get_member reply (str ''expires_in'') = Inr v5"
  shows "interpretReply body w =
     (w\<lparr>heap := heap w @
         [TokenObj \<lparr>accessToken = (if truthy v1 then v1 else Null),
                    refreshToken = (if truthy v3 then v3 else if truthy v2 then v2 else Null),
                    expires = (if truthy v5 then v5 else if truthy v4 then v4 else Null)\<rparr>]\<rparr>,
      Inr (length (heap w)))"
  using assms(2-6) unfolding assms(1) [symmetric] interpretReply_def assms(1) [symmetric]
  by (simp add: bind_def new_object_def assign_if_def lift_def update_token_def ret_def
      assms(1) [symmetric])

lemma interpretReply_null:
  assumes "JSON_parse body = Some Null"
  shows "interpretReply body w =
     (w\<lparr>heap := heap w @ [TokenObj \<lparr>accessToken = Null, refreshToken = Null, expires = Null\<rparr>]\<rparr>,
      Inl TypeError)"
  using assms
  by (simp add: interpretReply_def bind_def new_object_def assign_if_def lift_def)

lemma complete_done: "complete v st = Some (PDone u, st') \<Longrightarrow> u = v"
  by (induction v st rule: complete.induct) simp_all

lemma begin_value_done: "begin_value t st = Some (PDone u, st') \<Longrightarrow> u \<noteq> Undefined"
  by (induction t st rule: begin_value.induct) (auto dest: complete_done)

lemma close_array_done: "close_array st = Some (PDone u, st') \<Longrightarrow> u \<noteq> Undefined"
  by (induction st rule: close_array.induct) (auto dest: complete_done)

lemma close_object_done: "close_object st = Some (PDone u, st') \<Longrightarrow> u \<noteq> Undefined"
  by (induction st rule: close_object.induct) (auto dest: complete_done)

lemma read_key_done: "read_key k st \<noteq> Some (PDone u, st')"
  by (induction k st rule: read_key.induct) simp_all

lemma step_done: "step p st t = Some (PDone u, st') \<Longrightarrow> u \<noteq> Undefined"
  by (induction p st t rule: step.induct)
     (auto split: if_splits token.splits
           dest: begin_value_done close_array_done close_object_done simp: read_key_done)

lemma run_defined:
  "run p st ts = Some v \<Longrightarrow> (\<And>u. p = PDone u \<Longrightarrow> u \<noteq> Undefined) \<Longrightarrow> v \<noteq> Undefined"
proof (induction ts arbitrary: p st)
  case Nil
  then show ?case by (cases p) auto
next
  case (Cons t ts)
  from Cons.prems(1) obtain p' st' where s: "step p st t = Some (p', st')"
    and r: "run p' st' ts = Some v"
    by (auto split: option.splits)
  show ?case
  proof (rule Cons.IH [OF r])
    fix u assume "p' = PDone u"
    with s show "u \<noteq> Undefined" by (auto dest: step_done)
  qed
qed

lemma JSON_parse_defined: "JSON_parse s \<noteq> Some Undefined"
proof
  assume "JSON_parse s = Some Undefined"
  then obtain ts where "run PValue [] ts = Some Undefined"
    by (auto simp: JSON_parse_def split: option.splits)
  from run_defined [OF this] show False by simp
qed

lemma get_member_total:
  "v \<noteq> Null \<Longrightarrow> v \<noteq> Undefined \<Longrightarrow> \<exists>u. get_member v k = Inr u"
  by (cases v) simp_all

lemmas json_eval =
  JSON_parse_def str_def is_ws_def is_digit_def cons_tok_def string_char_def
  lex_number_def lex_int_def lex_frac_def lex_exp_def number_value_def digits_val_def

lemma parse_not_json: "JSON_parse (str ''not json'') = None"
  by (simp add: json_eval)

lemma parse_null: "JSON_parse (str ''null'') = Some Null"
  by (simp add: json_eval)

lemma parse_access_expires_in:
  "JSON_parse (str ''{\"access_token\":\"A\",\"expires_in\":120}'') =
     Some (Obj [(str ''access_token'', Str (str ''A'')), (str ''expires_in'', Num 120)])"
  by (simp add: json_eval)

lemma parse_refresh_state:
  "JSON_parse (str ''{\"refresh_token\":\"R\",\"state\":\"S\"}'') =
     Some (Obj [(str ''refresh_token'', Str (str ''R'')), (str ''state'', Str (str ''S''))])"
  by (simp add: json_eval)

lemma parse_refresh_empty_state:
  "JSON_parse (str ''{\"refresh_token\":\"R\",\"state\":\"\"}'') =
     Some (Obj [(str ''refresh_token'', Str (str ''R'')), (str ''state'', Str [])])"
  by (simp add: json_eval)

lemma parse_expires_both:
  "JSON_parse (str ''{\"expires\":3600,\"expires_in\":60}'') =
     Some (Obj [(str ''expires'', Num 3600), (str ''expires_in'', Num 60)])"
  by (simp add: json_eval)

lemma parse_expires_zero:
  "JSON_parse (str ''{\"expires\":3600,\"expires_in\":0}'') =
     Some (Obj [(str ''expires'', Num 3600), (str ''expires_in'', Num 0)])"
  by (simp add: json_eval)

text \<open>
  C4. A body that \<^verbatim>\<open>JSON.parse\<close> rejects: the interpreter raises nothing and returns a
  new token response whose three fields are all absent (\<^verbatim>\<open>null\<close>).
\<close>

theorem interpretReply_unparseable:
  "JSON_parse body = None \<Longrightarrow>
   interpretReply body w =
     (w\<lparr>heap := heap w @ [TokenObj \<lparr>accessToken = Null, refreshToken = Null, expires = Null\<rparr>]\<rparr>,
      Inr (length (heap w)))"
  using interpretReply_fields [of "Str body" body Undefined Undefined Undefined Undefined Undefined w]
  by simp

theorem interpretReply_unparseable_witness:
  "JSON_parse (str ''not json'') = None \<and>
   interpretReply (str ''not json'') \<lparr>heap = [], sent = [], delivered = []\<rparr> =
     (\<lparr>heap = [TokenObj \<lparr>accessToken = Null, refreshToken = Null, expires = Null\<rparr>],
       sent = [], delivered = []\<rparr>, Inr 0)"
  using interpretReply_unparseable [OF parse_not_json, of "\<lparr>heap = [], sent = [], delivered = []\<rparr>"]
    parse_not_json
  by simp

text \<open>
  C10. The interpreter is not total: on the body \<^verbatim>\<open>null\<close> the first property read raises
  a TypeError, and the bodies on which it raises are exactly those that parse to
  \<^verbatim>\<open>null\<close>; on every other body (unparseable, or parsed to a value with property
  access) it returns.
\<close>

theorem interpretReply_null_body:
  "interpretReply (str ''null'') w =
     (w\<lparr>heap := heap w @ [TokenObj \<lparr>accessToken = Null, refreshToken = Null, expires = Null\<rparr>]\<rparr>,
      Inl TypeError)
   \<and> ((\<exists>w' e. interpretReply body w = (w', Inl e)) = (JSON_parse body = Some Null))"
proof
  show "interpretReply (str ''null'') w =
     (w\<lparr>heap := heap w @ [TokenObj \<lparr>accessToken = Null, refreshToken = Null, expires = Null\<rparr>]\<rparr>,
      Inl TypeError)"
    by (rule interpretReply_null [OF parse_null])
next
  show "(\<exists>w' e. interpretReply body w = (w', Inl e)) = (JSON_parse body = Some Null)"
  proof
    assume raises: "\<exists>w' e. interpretReply body w = (w', Inl e)"
    show "JSON_parse body = Some Null"
    proof (rule ccontr)
      assume not_null: "JSON_parse body \<noteq> Some Null"
      define reply where "reply = (case JSON_parse body of None \<Rightarrow> Str body | Some v \<Rightarrow> v)"
      have "reply \<noteq> Null" "reply \<noteq> Undefined"
        using not_null JSON_parse_defined [of body]
        by (auto simp: reply_def split: option.splits)
      then obtain v1 v2 v3 v4 v5 where
        "get_member reply (str ''access_token'') = Inr v1"
        "get_member reply (str ''refresh_token'') = Inr v2"
        "get_member reply (str ''state'') = Inr v3"
        "get_member reply (str ''expires'') = Inr v4"
        "get_member reply (str ''expires_in'') = Inr v5"
        using get_member_total by metis
      from interpretReply_fields [OF reply_def this, of w] raises show False by simp
    qed
  next
    assume "JSON_parse body = Some Null"
    from interpretReply_null [OF this, of w]
    show "\<exists>w' e. interpretReply body w = (w', Inl e)" by blast
  qed
qed

text \<open>
  C1, amended. For a body that parses to an object with a \<^verbatim>\<open>refresh_token\<close> and a
  \<^verbatim>\<open>state\<close> member, \<open>refreshToken\<close> is the \<^verbatim>\<open>state\<close> value when that value is truthy;
  a falsy \<^verbatim>\<open>state\<close> leaves the \<^verbatim>\<open>refresh_token\<close> value (if truthy) in place.
\<close>

theorem interpretReply_state_over_refresh_token:
  assumes "JSON_parse body = Some (Obj ps)"
    and "map_of ps (str ''refresh_token'') = Some rt"
    and "map_of ps (str ''state'') = Some sv"
  shows "\<exists>t. interpretReply body w = (w\<lparr>heap := heap w @ [TokenObj t]\<rparr>, Inr (length (heap w)))
     \<and> refreshToken t = (if truthy sv then sv else if truthy rt then rt else Null)"
proof -
  have reply: "Obj ps = (case JSON_parse body of None \<Rightarrow> Str body | Some v \<Rightarrow> v)"
    using assms(1) by simp
  have rt: "get_member (Obj ps) (str ''refresh_token'') = Inr rt"
    and sv: "get_member (Obj ps) (str ''state'') = Inr sv"
    using assms(2,3) by simp_all
  show ?thesis
    by (rule exI, rule conjI,
        rule interpretReply_fields [OF reply get_member.simps(3) rt sv
          get_member.simps(3) get_member.simps(3)])
       simp
qed

theorem interpretReply_state_over_refresh_token_witness:
  "JSON_parse (str ''{\"refresh_token\":\"R\",\"state\":\"S\"}'') =
     Some (Obj [(str ''refresh_token'', Str (str ''R'')), (str ''state'', Str (str ''S''))])
   \<and> (\<exists>t. interpretReply (str ''{\"refresh_token\":\"R\",\"state\":\"S\"}'')
             \<lparr>heap = [], sent = [], delivered = []\<rparr> =
           (\<lparr>heap = [TokenObj t], sent = [], delivered = []\<rparr>, Inr 0)
         \<and> refreshToken t = Str (str ''S''))"
  using interpretReply_state_over_refresh_token [OF parse_refresh_state,
      of "Str (str ''R'')" "Str (str ''S'')" "\<lparr>heap = [], sent = [], delivered = []\<rparr>"]
    parse_refresh_state
  by (simp add: str_def)

theorem interpretReply_falsy_state_counterexample:
  "JSON_parse (str ''{\"refresh_token\":\"R\",\"state\":\"\"}'') =
     Some (Obj [(str ''refresh_token'', Str (str ''R'')), (str ''state'', Str [])])
   \<and> interpretReply (str ''{\"refresh_token\":\"R\",\"state\":\"\"}'')
        \<lparr>heap = [], sent = [], delivered = []\<rparr> =
      (\<lparr>heap = [TokenObj \<lparr>accessToken = Null, refreshToken = Str (str ''R''), expires = Null\<rparr>],
        sent = [], delivered = []\<rparr>, Inr 0)
   \<and> Str (str ''R'') \<noteq> Str []"
proof -
  have reply: "Obj [(str ''refresh_token'', Str (str ''R'')), (str ''state'', Str [])] =
      (case JSON_parse (str ''{\"refresh_token\":\"R\",\"state\":\"\"}'') of
         None \<Rightarrow> Str (str ''{\"refresh_token\":\"R\",\"state\":\"\"}'') | Some v \<Rightarrow> v)"
    by (simp add: parse_refresh_empty_state)
  show ?thesis
    unfolding interpretReply_fields [OF reply get_member.simps(3) get_member.simps(3)
        get_member.simps(3) get_member.simps(3) get_member.simps(3)]
    using parse_refresh_empty_state by (simp add: str_def)
qed

text \<open>
  C5, amended. The body \<^verbatim>\<open>{"access_token":"A","expires_in":120}\<close> gives
  \<open>accessToken = "A"\<close>, \<open>refreshToken\<close> absent and \<open>expires = 120\<close>; and for a body that
  parses to an object with both \<^verbatim>\<open>expires\<close> and \<^verbatim>\<open>expires_in\<close>, the final \<open>expires\<close> is
  the \<^verbatim>\<open>expires_in\<close> value when that value is truthy; a falsy \<^verbatim>\<open>expires_in\<close> (such as
  \<open>0\<close>) leaves the \<^verbatim>\<open>expires\<close> value (if truthy) in place.
\<close>

theorem interpretReply_expires_in_over_expires:
  "interpretReply (str ''{\"access_token\":\"A\",\"expires_in\":120}'') w =
     (w\<lparr>heap := heap w @
         [TokenObj \<lparr>accessToken = Str (str ''A''), refreshToken = Null, expires = Num 120\<rparr>]\<rparr>,
      Inr (length (heap w)))
   \<and> (JSON_parse body = Some (Obj ps) \<longrightarrow>
      map_of ps (str ''expires'') = Some ev \<longrightarrow>
      map_of ps (str ''expires_in'') = Some iv \<longrightarrow>
      (\<exists>t. interpretReply body w = (w\<lparr>heap := heap w @ [TokenObj t]\<rparr>, Inr (length (heap w)))
         \<and> expires t = (if truthy iv then iv else if truthy ev then ev else Null)))"
proof (intro conjI impI)
  let ?b = "str ''{\"access_token\":\"A\",\"expires_in\":120}''"
  let ?ps = "[(str ''access_token'', Str (str ''A'')), (str ''expires_in'', Num 120)]"
  have reply: "Obj ?ps = (case JSON_parse ?b of None \<Rightarrow> Str ?b | Some v \<Rightarrow> v)"
    by (simp add: parse_access_expires_in)
  show "interpretReply ?b w =
     (w\<lparr>heap := heap w @
         [TokenObj \<lparr>accessToken = Str (str ''A''), refreshToken = Null, expires = Num 120\<rparr>]\<rparr>,
      Inr (length (heap w)))"
    unfolding interpretReply_fields [OF reply get_member.simps(3) get_member.simps(3)
        get_member.simps(3) get_member.simps(3) get_member.simps(3)]
    by (simp add: str_def)
next
  assume parse: "JSON_parse body = Some (Obj ps)"
    and e: "map_of ps (str ''expires'') = Some ev"
    and i: "map_of ps (str ''expires_in'') = Some iv"
  have reply: "Obj ps = (case JSON_parse body of None \<Rightarrow> Str body | Some v \<Rightarrow> v)"
    using parse by simp
  have ev: "get_member (Obj ps) (str ''expires'') = Inr ev"
    and iv: "get_member (Obj ps) (str ''expires_in'') = Inr iv"
    using e i by simp_all
  show "\<exists>t. interpretReply body w = (w\<lparr>heap := heap w @ [TokenObj t]\<rparr>, Inr (length (heap w)))
     \<and> expires t = (if truthy iv then iv else if truthy ev then ev else Null)"
    by (rule exI, rule conjI,
        rule interpretReply_fields [OF reply get_member.simps(3) get_member.simps(3)
          get_member.simps(3) ev iv])
       simp
qed

theorem interpretReply_expires_in_over_expires_witness:
  "JSON_parse (str ''{\"expires\":3600,\"expires_in\":60}'') =
     Some (Obj [(str ''expires'', Num 3600), (str ''expires_in'', Num 60)])
   \<and> (\<exists>t. interpretReply (str ''{\"expires\":3600,\"expires_in\":60}'')
             \<lparr>heap = [], sent = [], delivered = []\<rparr> =
           (\<lparr>heap = [TokenObj t], sent = [], delivered = []\<rparr>, Inr 0)
         \<and> expires t = Num 60)"
  using interpretReply_expires_in_over_expires
      [of "\<lparr>heap = [], sent = [], delivered = []\<rparr>" "str ''{\"expires\":3600,\"expires_in\":60}''"
        "[(str ''expires'', Num 3600), (str ''expires_in'', Num 60)]" "Num 3600" "Num 60"]
    parse_expires_both
  by (simp add: str_def)

theorem interpretReply_zero_expires_in_counterexample:
  "JSON_parse (str ''{\"expires\":3600,\"expires_in\":0}'') =
     Some (Obj [(str ''expires'', Num 3600), (str ''expires_in'', Num 0)])
   \<and> interpretReply (str ''{\"expires\":3600,\"expires_in\":0}'')
        \<lparr>heap = [], sent = [], delivered = []\<rparr> =
      (\<lparr>heap = [TokenObj \<lparr>accessToken = Null, refreshToken = Null, expires = Num 3600\<rparr>],
        sent = [], delivered = []\<rparr>, Inr 0)
   \<and> Num 3600 \<noteq> Num 0"
proof -
  have reply: "Obj [(str ''expires'', Num 3600), (str ''expires_in'', Num 0)] =
      (case JSON_parse (str ''{\"expires\":3600,\"expires_in\":0}'') of
         None \<Rightarrow> Str (str ''{\"expires\":3600,\"expires_in\":0}'') | Some v \<Rightarrow> v)"
    by (simp add: parse_expires_zero)
  show ?thesis
    unfolding interpretReply_fields [OF reply get_member.simps(3) get_member.simps(3)
        get_member.simps(3) get_member.simps(3) get_member.simps(3)]
    using parse_expires_zero by (simp add: str_def)
qed

section \<open>Properties of the redirect builder\<close>

lemma map_of_append_fresh:
  "k \<notin> fst ` set xs \<Longrightarrow> map_of (xs @ (k, v) # ys) k = Some v"
  by (induction xs) auto

lemma set_prop_append_fresh:
  "k \<notin> fst ` set xs \<Longrightarrow> set_prop k v (xs @ (k, v0) # ys) = xs @ (k, v) # ys"
  by (induction xs) auto

lemma encode_each_success:
  assumes "encode_each a (map fst todo) w = (w', Inr u)"
    and "a < length (heap w)"
    and "heap w ! a = ParamsObj (finished @ todo)"
    and "distinct (map fst (finished @ todo))"
  shows "\<exists>todo'.
      list_all2 (\<lambda>(k, v) (k', v'). k' = k \<and> (\<exists>s. encodeURIComponent (ToString v) = Inr s \<and> v' = Some s))
        todo todo'
      \<and> w' = w\<lparr>heap := (heap w)[a := ParamsObj (finished @ todo')]\<rparr>"
  using assms
proof (induction todo arbitrary: finished w)
  case Nil
  then have "w' = w" by (simp add: ret_def)
  moreover have "(heap w)[a := ParamsObj finished] = heap w"
    using Nil.prems(3) by (metis append_Nil2 list_update_id)
  ultimately show ?case by simp
next
  case (Cons kv todo)
  obtain k v where kv: "kv = (k, v)" by (cases kv)
  have fresh: "k \<notin> fst ` set finished"
    using Cons.prems(4) kv by auto
  have get: "get_param a k w = (w, Inr v)"
    using Cons.prems(2,3) kv map_of_append_fresh [OF fresh]
    by (simp add: get_param_def get_params_def bind_def ret_def)
  obtain s where enc: "encodeURIComponent (ToString v) = Inr s"
    using Cons.prems(1) kv get
    by (cases "encodeURIComponent (ToString v)") (simp_all add: bind_def lift_def)
  define w1 where "w1 = w\<lparr>heap := (heap w)[a := ParamsObj (finished @ (k, Some s) # todo)]\<rparr>"
  have set: "set_param a k (Some s) w = (w1, Inr ())"
    using Cons.prems(2,3) kv set_prop_append_fresh [OF fresh]
    by (simp add: set_param_def w1_def)
  have rest: "encode_each a (map fst todo) w1 = (w', Inr u)"
    using Cons.prems(1) kv get enc set by (simp add: bind_def lift_def)
  have "\<exists>todo'.
      list_all2 (\<lambda>(k, v) (k', v'). k' = k \<and> (\<exists>s. encodeURIComponent (ToString v) = Inr s \<and> v' = Some s))
        todo todo'
      \<and> w' = w1\<lparr>heap := (heap w1)[a := ParamsObj ((finished @ [(k, Some s)]) @ todo')]\<rparr>"
  proof (rule Cons.IH [OF rest])
    show "a < length (heap w1)" using Cons.prems(2) by (simp add: w1_def)
    show "heap w1 ! a = ParamsObj ((finished @ [(k, Some s)]) @ todo)"
      using Cons.prems(2) by (simp add: w1_def)
    show "distinct (map fst ((finished @ [(k, Some s)]) @ todo))"
      using Cons.prems(4) kv by simp
  qed
  then obtain todo' where
    all: "list_all2 (\<lambda>(k, v) (k', v'). k' = k \<and> (\<exists>s. encodeURIComponent (ToString v) = Inr s \<and> v' = Some s))
        todo todo'"
    and w': "w' = w1\<lparr>heap := (heap w1)[a := ParamsObj ((finished @ [(k, Some s)]) @ todo')]\<rparr>"
    by blast
  show ?case
  proof (intro exI conjI)
    show "list_all2 (\<lambda>(k, v) (k', v'). k' = k \<and> (\<exists>s. encodeURIComponent (ToString v) = Inr s \<and> v' = Some s))
        (kv # todo) ((k, Some s) # todo')"
      using all enc kv by simp
    show "w' = w\<lparr>heap := (heap w)[a := ParamsObj (finished @ (k, Some s) # todo')]\<rparr>"
      using w' by (simp add: w1_def)
  qed
qed

lemma stringify_fields_success:
  "stringify_fields ps = Inr fs \<Longrightarrow>
   list_all2 (\<lambda>(k, v) f. \<exists>ek ev. encodeURIComponent k = Inr ek
        \<and> encodeURIComponent (stringifyPrimitive v) = Inr ev \<and> f = ek @ str ''='' @ ev) ps fs"
proof (induction ps arbitrary: fs)
  case Nil
  then show ?case by simp
next
  case (Cons kv ps)
  obtain k v where kv: "kv = (k, v)" by (cases kv)
  from Cons.prems kv obtain ek ev fs' where
    "encodeURIComponent k = Inr ek" "encodeURIComponent (stringifyPrimitive v) = Inr ev"
    "stringify_fields ps = Inr fs'" "fs = (ek @ str ''='' @ ev) # fs'"
    by (auto simp: and_then_def qs_escape_def split: sum.splits)
  with Cons.IH [of fs'] kv show ?case by auto
qed

text \<open>What a successful \<^verbatim>\<open>buildQueryString\<close> returns and does: every value has been
  encoded by \<^verbatim>\<open>encodeURIComponent\<close> and then again by \<^verbatim>\<open>querystring.stringify\<close>, and the
  object holds the once-encoded values.\<close>

lemma buildQueryString_success:
  assumes "buildQueryString a w = (w', Inr q)"
    and "a < length (heap w)"
    and "heap w ! a = ParamsObj ps"
    and "distinct (map fst ps)"
  shows "\<exists>ps' fs.
      list_all2 (\<lambda>(k, v) (k', v'). k' = k \<and> (\<exists>s. encodeURIComponent (ToString v) = Inr s \<and> v' = Some s))
        ps ps'
      \<and> list_all2 (\<lambda>(k, v) f. \<exists>ek ev. encodeURIComponent k = Inr ek
          \<and> encodeURIComponent (stringifyPrimitive v) = Inr ev \<and> f = ek @ str ''='' @ ev) ps' fs
      \<and> q = join_with (str ''&'') fs
      \<and> w' = w\<lparr>heap := (heap w)[a := ParamsObj ps']\<rparr>"
proof -
  have get: "get_params a w = (w, Inr ps)"
    using assms(2,3) by (simp add: get_params_def)
  obtain w1 where each: "encode_each a (map fst ps) w = (w1, Inr ())"
    and after: "bind (get_params a) (\<lambda>ps'. lift (querystring_stringify ps')) w1 = (w', Inr q)"
    using assms(1) get
    by (cases "encode_each a (map fst ps) w")
       (auto simp: buildQueryString_def bind_def split: sum.splits)
  from encode_each_success [OF each assms(2), of "[]"] assms(3,4)
  obtain ps' where
    enc: "list_all2 (\<lambda>(k, v) (k', v'). k' = k \<and> (\<exists>s. encodeURIComponent (ToString v) = Inr s \<and> v' = Some s))
        ps ps'"
    and w1: "w1 = w\<lparr>heap := (heap w)[a := ParamsObj ps']\<rparr>"
    by auto
  have get1: "get_params a w1 = (w1, Inr ps')"
    using assms(2) by (simp add: get_params_def w1)
  from after get1 have "w' = w1" and "querystring_stringify ps' = Inr q"
    by (simp_all add: bind_def lift_def)
  then obtain fs where "stringify_fields ps' = Inr fs" and q: "q = join_with (str ''&'') fs"
    by (auto simp: querystring_stringify_def and_then_def split: sum.splits)
  from stringify_fields_success [OF this(1)] enc q w1 \<open>w' = w1\<close> show ?thesis by blast
qed

lemma encodeURIComponent_unescaped:
  "list_all uri_unescaped s \<Longrightarrow> encodeURIComponent s = Inr s"
  by (induction s) (simp_all add: prepend_def)

lemma hex_digit_unescaped: "n < 16 \<Longrightarrow> uri_unescaped (hex_digit n)"
proof -
  assume "n < 16"
  then have "n \<in> set [0, 1, 2, 3, 4, 5, 6, 7] \<or> n \<in> set [8, 9, 10, 11, 12, 13, 14, 15]"
    by (simp only: set_simps insert_iff empty_iff) arith
  then show ?thesis
    by (auto simp: hex_digit_def uri_unescaped_def)
qed

lemma percent_safe:
  "b < 256 \<Longrightarrow> list_all (\<lambda>c. uri_unescaped c \<or> c = 0x25) (percent b)"
proof -
  assume "b < 256"
  then have "b div 16 < 16" "b mod 16 < 16" by simp_all
  then show ?thesis by (simp add: percent_def hex_digit_unescaped)
qed

lemma utf8_bytes: "cp < 0x110000 \<Longrightarrow> b \<in> set (utf8 cp) \<Longrightarrow> b < 256"
  unfolding utf8_def by (auto split: if_splits)

lemma CodePointAt_bound: "CodePointAt c cs = Some (cp, rest) \<Longrightarrow> cp < 0x110000"
proof -
  assume a: "CodePointAt c cs = Some (cp, rest)"
  have c: "unat c < 65536" using unsigned_less [of c, where ?'a = nat] by simp
  show ?thesis
  proof (cases "0xD800 \<le> c \<and> c \<le> 0xDBFF")
    case True
    with a obtain d cs' where cs: "cs = d # cs'" and d: "0xDC00 \<le> d \<and> d \<le> 0xDFFF"
      and cp: "cp = (unat c - 0xD800) * 0x400 + (unat d - 0xDC00) + 0x10000"
      by (auto simp: CodePointAt_def split: list.splits if_splits)
    from True have "unat c \<le> 0xDBFF" by (simp add: word_le_nat_alt)
    moreover from d have "unat d \<le> 0xDFFF" by (simp add: word_le_nat_alt)
    ultimately show ?thesis using cp by simp
  next
    case False
    with a have "cp = unat c" by (auto simp: CodePointAt_def split: if_splits)
    with c show ?thesis by simp
  qed
qed

lemma percent_utf8_safe:
  "cp < 0x110000 \<Longrightarrow> list_all (\<lambda>c. uri_unescaped c \<or> c = 0x25) (concat (map percent (utf8 cp)))"
  using utf8_bytes [of cp] percent_safe
  by (induction "utf8 cp") (auto simp: list_all_iff)

text \<open>The output of \<^verbatim>\<open>encodeURIComponent\<close> has unescaped characters and \<^verbatim>\<open>%\<close> only: no
  \<^verbatim>\<open>&\<close>, \<^verbatim>\<open>=\<close>, \<^verbatim>\<open>?\<close> or \<^verbatim>\<open>#\<close>.\<close>

lemma encodeURIComponent_safe:
  "encodeURIComponent s = Inr t \<Longrightarrow> list_all (\<lambda>c. uri_unescaped c \<or> c = 0x25) t"
proof (induction s arbitrary: t rule: encodeURIComponent.induct)
  case 1
  then show ?case by simp
next
  case (2 c cs)
  show ?case
  proof (cases "uri_unescaped c")
    case True
    with "2.prems" obtain t' where "encodeURIComponent cs = Inr t'" "t = c # t'"
      by (auto simp: prepend_def split: sum.splits)
    with "2.IH"(1) [OF True] True show ?thesis by simp
  next
    case False
    with "2.prems" obtain cp rest t' where cpa: "CodePointAt c cs = Some (cp, rest)"
      and r: "encodeURIComponent rest = Inr t'"
      and t: "t = concat (map percent (utf8 cp)) @ t'"
      by (auto simp: prepend_def split: option.splits sum.splits)
    from "2.IH"(2) [OF False cpa refl r] percent_utf8_safe [OF CodePointAt_bound [OF cpa]] t
    show ?thesis by simp
  qed
qed

lemma join_with_append:
  "xs \<noteq> [] \<Longrightarrow>
   join_with sep (xs @ ys) = join_with sep xs @ (if ys = [] then [] else sep @ join_with sep ys)"
proof (induction sep xs rule: join_with.induct)
  case (1 sep)
  then show ?case by simp
next
  case (2 sep x)
  then show ?case by (cases ys) simp_all
next
  case (3 sep x y ys')
  then show ?case by simp
qed

text \<open>Each field of the query string: the key, and the value encoded twice.\<close>

lemma buildQueryString_fields:
  assumes "buildQueryString a w = (w', Inr q)"
    and "a < length (heap w)"
    and "heap w ! a = ParamsObj ps"
    and "distinct (map fst ps)"
  shows "\<exists>fs.
      list_all2 (\<lambda>(k, v) f. \<exists>ek s ev. encodeURIComponent k = Inr ek
          \<and> encodeURIComponent (ToString v) = Inr s \<and> encodeURIComponent s = Inr ev
          \<and> f = ek @ str ''='' @ ev) ps fs
      \<and> q = join_with (str ''&'') fs"
proof -
  from buildQueryString_success [OF assms] obtain ps' fs where
    1: "list_all2 (\<lambda>(k, v) (k', v'). k' = k \<and> (\<exists>s. encodeURIComponent (ToString v) = Inr s \<and> v' = Some s))
        ps ps'"
    and 2: "list_all2 (\<lambda>(k, v) f. \<exists>ek ev. encodeURIComponent k = Inr ek
          \<and> encodeURIComponent (stringifyPrimitive v) = Inr ev \<and> f = ek @ str ''='' @ ev) ps' fs"
    and q: "q = join_with (str ''&'') fs"
    by blast
  have "list_all2 (\<lambda>(k, v) f. \<exists>ek s ev. encodeURIComponent k = Inr ek
          \<and> encodeURIComponent (ToString v) = Inr s \<and> encodeURIComponent s = Inr ev
          \<and> f = ek @ str ''='' @ ev) ps fs"
    by (rule list_all2_trans [OF _ 1 2]) (auto simp: stringifyPrimitive_def)
  with q show ?thesis by blast
qed

lemma bind_provider_field:
  "p < length (heap w) \<Longrightarrow> heap w ! p = ProviderObj pr \<Longrightarrow>
   bind (provider_field p f) g w = g (f pr) w"
  by (simp add: bind_def provider_field_def)

lemma bind_new_object:
  "bind (new_object c) g w = g (length (heap w)) (w\<lparr>heap := heap w @ [c]\<rparr>)"
  by (simp add: bind_def new_object_def)

lemma bind_provider_field_new:
  "p < length h \<Longrightarrow> h ! p = ProviderObj pr \<Longrightarrow>
   bind (provider_field p f) g (w\<lparr>heap := h @ cs\<rparr>) = g (f pr) (w\<lparr>heap := h @ cs\<rparr>)"
  by (simp add: bind_def provider_field_def nth_append)

lemma bind_set_if_new:
  "bind (set_if c (length h) k v) g (w\<lparr>heap := h @ [ParamsObj ps]\<rparr>) =
     g () (w\<lparr>heap := h @ [ParamsObj (if c then set_prop k v ps else ps)]\<rparr>)"
  by (simp add: bind_def set_if_def set_param_def ret_def)

lemma key_eval:
  "str ''client_id'' \<noteq> str ''access_type''" "str ''display'' \<noteq> str ''access_type''"
  "str ''locale'' \<noteq> str ''access_type''" "str ''redirect_uri'' \<noteq> str ''access_type''"
  "str ''response_type'' \<noteq> str ''access_type''"
  "str ''client_id'' \<noteq> str ''scope''" "str ''display'' \<noteq> str ''scope''"
  "str ''locale'' \<noteq> str ''scope''" "str ''redirect_uri'' \<noteq> str ''scope''"
  "str ''response_type'' \<noteq> str ''scope''" "str ''access_type'' \<noteq> str ''scope''"
  "str ''client_id'' \<noteq> str ''state''" "str ''display'' \<noteq> str ''state''"
  "str ''locale'' \<noteq> str ''state''" "str ''redirect_uri'' \<noteq> str ''state''"
  "str ''response_type'' \<noteq> str ''state''" "str ''access_type'' \<noteq> str ''state''"
  "str ''scope'' \<noteq> str ''state''"
  "str ''client_secret'' \<noteq> str ''scope''" "str ''code'' \<noteq> str ''scope''"
  "str ''grant_type'' \<noteq> str ''scope''" "str ''refresh_token'' \<noteq> str ''scope''"
  "str ''client_secret'' \<noteq> str ''state''" "str ''code'' \<noteq> str ''state''"
  "str ''grant_type'' \<noteq> str ''state''" "str ''refresh_token'' \<noteq> str ''state''"
  by (simp_all add: str_def)

text \<open>\<^verbatim>\<open>CreateRedirect\<close> up to the call of \<^verbatim>\<open>buildQueryString\<close>: the \<^verbatim>\<open>parameters\<close> object
  is new, and holds the five required entries followed by the optional ones.\<close>

lemma CreateRedirect_unfold:
  assumes "p < length (heap w)" and "heap w ! p = ProviderObj pr"
  shows "CreateRedirect p r l w =
     bind (buildQueryString (length (heap w)))
       (\<lambda>q. ret (ToString (authUri pr) @ str ''?'' @ q))
       (w\<lparr>heap := heap w @
          [ParamsObj
            ([(str ''client_id'', clientId pr),
              (str ''display'', Some (str ''page'')),
              (str ''locale'', if \<not> truthy_string l then Some (str ''en'') else l),
              (str ''redirect_uri'', r),
              (str ''response_type'', Some (str ''code''))]
             @ (if truthy_flag (offline pr) then [(str ''access_type'', Some (str ''offline''))] else [])
             @ (if truthy_string (scope pr) then [(str ''scope'', scope pr)] else [])
             @ (if truthy_string (state pr) then [(str ''state'', state pr)] else []))]\<rparr>)"
proof -
  have set3: "(if c3 then set_prop (str ''state'') v3
        (if c2 then set_prop (str ''scope'') v2
           (if c1 then set_prop (str ''access_type'') v1 base else base)
         else (if c1 then set_prop (str ''access_type'') v1 base else base))
      else (if c2 then set_prop (str ''scope'') v2
           (if c1 then set_prop (str ''access_type'') v1 base else base)
         else (if c1 then set_prop (str ''access_type'') v1 base else base))) =
      base @ (if c1 then [(str ''access_type'', v1)] else [])
        @ (if c2 then [(str ''scope'', v2)] else [])
        @ (if c3 then [(str ''state'', v3)] else [])"
    if "base = [(str ''client_id'', a1), (str ''display'', a2), (str ''locale'', a3),
          (str ''redirect_uri'', a4), (str ''response_type'', a5)]"
    for c1 c2 c3 and v1 v2 v3 a1 a2 a3 a4 a5 :: "jsstring option" and base
    unfolding that by (simp add: key_eval)
  show ?thesis
    unfolding CreateRedirect_def Let_def
    apply (simp only: bind_provider_field [OF assms] bind_new_object
        bind_provider_field_new [OF assms] bind_set_if_new)
    apply (subst set3 [OF refl])
    apply (rule refl)
    done
qed

lemma bind_ret_success:
  "bind m (\<lambda>x. ret (f x)) w = (w', Inr y) \<Longrightarrow> \<exists>x. m w = (w', Inr x) \<and> y = f x"
  by (cases "m w") (auto simp: bind_def ret_def split: sum.splits)

lemma keys_unescaped:
  "encodeURIComponent (str ''client_id'') = Inr (str ''client_id'')"
  "encodeURIComponent (str ''display'') = Inr (str ''display'')"
  "encodeURIComponent (str ''locale'') = Inr (str ''locale'')"
  "encodeURIComponent (str ''redirect_uri'') = Inr (str ''redirect_uri'')"
  "encodeURIComponent (str ''response_type'') = Inr (str ''response_type'')"
  "encodeURIComponent (str ''page'') = Inr (str ''page'')"
  "encodeURIComponent (str ''code'') = Inr (str ''code'')"
  "encodeURIComponent (str ''en'') = Inr (str ''en'')"
  by (rule encodeURIComponent_unescaped, simp add: str_def uri_unescaped_def)+

text \<open>The shape of every redirect that \<^verbatim>\<open>CreateRedirect\<close> returns.\<close>

lemma CreateRedirect_form:
  assumes "p < length (heap w)" and "heap w ! p = ProviderObj pr"
    and "CreateRedirect p r l w = (w', Inr out)"
  shows "\<exists>c1 c2 l1 l2 r1 r2 rest.
      encodeURIComponent (ToString (clientId pr)) = Inr c1 \<and> encodeURIComponent c1 = Inr c2
    \<and> encodeURIComponent (if truthy_string l then ToString l else str ''en'') = Inr l1
    \<and> encodeURIComponent l1 = Inr l2
    \<and> encodeURIComponent (ToString r) = Inr r1 \<and> encodeURIComponent r1 = Inr r2
    \<and> out = ToString (authUri pr) @ str ''?client_id='' @ c2 @ str ''&display=page&locale='' @ l2
        @ str ''&redirect_uri='' @ r2 @ str ''&response_type=code'' @ rest
    \<and> (\<not> truthy_flag (offline pr) \<and> \<not> truthy_string (scope pr) \<and> \<not> truthy_string (state pr)
        \<longrightarrow> rest = [])"
proof -
  let ?base = "[(str ''client_id'', clientId pr),
              (str ''display'', Some (str ''page'')),
              (str ''locale'', if \<not> truthy_string l then Some (str ''en'') else l),
              (str ''redirect_uri'', r),
              (str ''response_type'', Some (str ''code''))]"
  let ?opt = "(if truthy_flag (offline pr) then [(str ''access_type'', Some (str ''offline''))] else [])
             @ (if truthy_string (scope pr) then [(str ''scope'', scope pr)] else [])
             @ (if truthy_string (state pr) then [(str ''state'', state pr)] else [])"
  let ?wB = "w\<lparr>heap := heap w @ [ParamsObj (?base @ ?opt)]\<rparr>"
  let ?R = "\<lambda>(k, v) f. \<exists>ek s ev. encodeURIComponent k = Inr ek
          \<and> encodeURIComponent (ToString v) = Inr s \<and> encodeURIComponent s = Inr ev
          \<and> f = ek @ str ''='' @ ev"
  from assms(3) have "bind (buildQueryString (length (heap w)))
       (\<lambda>q. ret (ToString (authUri pr) @ str ''?'' @ q)) ?wB = (w', Inr out)"
    unfolding CreateRedirect_unfold [OF assms(1,2)] by simp
  from bind_ret_success [OF this] obtain q where
    bq: "buildQueryString (length (heap w)) ?wB = (w', Inr q)"
    and out: "out = ToString (authUri pr) @ str ''?'' @ q"
    by blast
  have dist: "distinct (map fst (?base @ ?opt))"
    by (simp add: str_def)
  have "\<exists>fs. list_all2 ?R (?base @ ?opt) fs \<and> q = join_with (str ''&'') fs"
    by (rule buildQueryString_fields [OF bq _ _ dist]) simp_all
  then obtain fs where fs: "list_all2 ?R (?base @ ?opt) fs" and q: "q = join_with (str ''&'') fs"
    by blast
  from list_all2_append1 [THEN iffD1, OF fs]
  obtain fb fo where split: "fs = fb @ fo" and fb: "list_all2 ?R ?base fb"
    and fo: "list_all2 ?R ?opt fo"
    by blast
  from fb obtain c1 c2 l1 l2 r1 r2 where
    c: "encodeURIComponent (ToString (clientId pr)) = Inr c1" "encodeURIComponent c1 = Inr c2"
    and l: "encodeURIComponent (if truthy_string l then ToString l else str ''en'') = Inr l1"
      "encodeURIComponent l1 = Inr l2"
    and r: "encodeURIComponent (ToString r) = Inr r1" "encodeURIComponent r1 = Inr r2"
    and fbe: "fb = [str ''client_id'' @ str ''='' @ c2, str ''display'' @ str ''='' @ str ''page'',
        str ''locale'' @ str ''='' @ l2, str ''redirect_uri'' @ str ''='' @ r2,
        str ''response_type'' @ str ''='' @ str ''code'']"
    by (auto simp: list_all2_Cons1 keys_unescaped ToString_def split: if_splits)
  define rest where "rest = (if fo = [] then [] else str ''&'' @ join_with (str ''&'') fo)"
  have "q = join_with (str ''&'') fb @ rest"
    unfolding q split rest_def by (rule join_with_append) (simp add: fbe)
  then have "out = ToString (authUri pr) @ str ''?client_id='' @ c2 @ str ''&display=page&locale='' @ l2
        @ str ''&redirect_uri='' @ r2 @ str ''&response_type=code'' @ rest"
    unfolding out fbe by (simp add: str_def)
  moreover have "rest = []"
    if "\<not> truthy_flag (offline pr) \<and> \<not> truthy_string (scope pr) \<and> \<not> truthy_string (state pr)"
    using fo that by (simp add: rest_def)
  ultimately show ?thesis using c l r by blast
qed

lemmas prog_eval =
  bind_def ret_def throw_def lift_def provider_field_def new_object_def get_params_def
  set_param_def get_param_def set_if_def buildQueryString_def querystring_stringify_def
  and_then_def qs_escape_def prepend_def ToString_def stringifyPrimitive_def
  truthy_string_def truthy_flag_def uri_unescaped_def CodePointAt_def utf8_def percent_def
  hex_digit_def str_def

lemma run_CreateRedirect_example:
  "CreateRedirect 0 (Some (str ''https://a.io/cb'')) None
     \<lparr>heap = [ProviderObj \<lparr>clientId = Some (str ''my id''), clientSecret = None,
         authUri = Some (str ''https://graph.facebook.com/oauth/authorize''),
         accessTokenUri = None, userInfoUri = None, scope = None, state = None,
         offline = None\<rparr>],
      sent = [], delivered = []\<rparr> =
   (\<lparr>heap = [ProviderObj \<lparr>clientId = Some (str ''my id''), clientSecret = None,
         authUri = Some (str ''https://graph.facebook.com/oauth/authorize''),
         accessTokenUri = None, userInfoUri = None, scope = None, state = None,
         offline = None\<rparr>,
       ParamsObj [(str ''client_id'', Some (str ''my%20id'')),
         (str ''display'', Some (str ''page'')),
         (str ''locale'', Some (str ''en'')),
         (str ''redirect_uri'', Some (str ''https%3A%2F%2Fa.io%2Fcb'')),
         (str ''response_type'', Some (str ''code''))]],
      sent = [], delivered = []\<rparr>,
    Inr (str ''https://graph.facebook.com/oauth/authorize?client_id=my%2520id&display=page&locale=en&redirect_uri=https%253A%252F%252Fa.io%252Fcb&response_type=code''))"
  by (simp add: CreateRedirect_def prog_eval)

text \<open>A string without surrogate code units can always be encoded.\<close>

lemma encodeURIComponent_no_surrogate:
  "list_all (\<lambda>c. \<not> (0xD800 \<le> c \<and> c \<le> 0xDFFF)) s \<Longrightarrow> \<exists>t. encodeURIComponent s = Inr t"
proof (induction s)
  case Nil
  show ?case by simp
next
  case (Cons c s)
  then obtain t where t: "encodeURIComponent s = Inr t" by auto
  from Cons.prems have c: "\<not> (0xD800 \<le> c \<and> c \<le> 0xDFFF)" by simp
  then have "\<not> (0xD800 \<le> c \<and> c \<le> 0xDBFF)" and "\<not> (0xDC00 \<le> c \<and> c \<le> 0xDFFF)"
    by (auto simp: word_le_nat_alt)
  then have "CodePointAt c s = Some (unat c, s)" by (auto simp: CodePointAt_def)
  with t show ?case by (simp add: prepend_def)
qed

text \<open>Encoding an encoded string again never fails.\<close>

lemma encodeURIComponent_again:
  "list_all (\<lambda>c. uri_unescaped c \<or> c = 0x25) t \<Longrightarrow> \<exists>u. encodeURIComponent t = Inr u"
proof (induction t)
  case Nil
  show ?case by simp
next
  case (Cons c t)
  then obtain u where u: "encodeURIComponent t = Inr u" by auto
  from Cons.prems have "uri_unescaped c \<or> c = 0x25" by simp
  then show ?case
  proof
    assume "uri_unescaped c"
    with u show ?thesis by (simp add: prepend_def)
  next
    assume "c = 0x25"
    with u show ?thesis by (simp add: prepend_def uri_unescaped_def CodePointAt_def)
  qed
qed

lemma encode_each_run:
  assumes "a < length (heap w)"
    and "heap w ! a = ParamsObj (finished @ todo)"
    and "distinct (map fst (finished @ todo))"
    and "list_all (\<lambda>(k, v). \<exists>s. encodeURIComponent (ToString v) = Inr s) todo"
  shows "\<exists>w'. encode_each a (map fst todo) w = (w', Inr ())"
  using assms
proof (induction todo arbitrary: finished w)
  case Nil
  show ?case by (simp add: ret_def)
next
  case (Cons kv todo)
  obtain k v where kv: "kv = (k, v)" by (cases kv)
  have fresh: "k \<notin> fst ` set finished"
    using Cons.prems(3) kv by auto
  have get: "get_param a k w = (w, Inr v)"
    using Cons.prems(1,2) kv map_of_append_fresh [OF fresh]
    by (simp add: get_param_def get_params_def bind_def ret_def)
  from Cons.prems(4) kv obtain s where enc: "encodeURIComponent (ToString v) = Inr s"
    by auto
  define w1 where "w1 = w\<lparr>heap := (heap w)[a := ParamsObj (finished @ (k, Some s) # todo)]\<rparr>"
  have set: "set_param a k (Some s) w = (w1, Inr ())"
    using Cons.prems(1,2) kv set_prop_append_fresh [OF fresh]
    by (simp add: set_param_def w1_def)
  have "\<exists>w'. encode_each a (map fst todo) w1 = (w', Inr ())"
  proof (rule Cons.IH [of w1 "finished @ [(k, Some s)]"])
    show "a < length (heap w1)" using Cons.prems(1) by (simp add: w1_def)
    show "heap w1 ! a = ParamsObj ((finished @ [(k, Some s)]) @ todo)"
      using Cons.prems(1) by (simp add: w1_def)
    show "distinct (map fst ((finished @ [(k, Some s)]) @ todo))"
      using Cons.prems(3) kv by simp
    show "list_all (\<lambda>(k, v). \<exists>s. encodeURIComponent (ToString v) = Inr s) todo"
      using Cons.prems(4) by simp
  qed
  then show ?case
    using kv get enc set by (simp add: bind_def lift_def)
qed

lemma stringify_fields_run:
  "list_all (\<lambda>(k, v). (\<exists>ek. encodeURIComponent k = Inr ek)
      \<and> (\<exists>ev. encodeURIComponent (stringifyPrimitive v) = Inr ev)) ps \<Longrightarrow>
   \<exists>fs. stringify_fields ps = Inr fs"
  by (induction ps) (auto simp: and_then_def qs_escape_def)

text \<open>\<^verbatim>\<open>buildQueryString\<close> returns when every key and every value can be encoded.\<close>

lemma buildQueryString_returns:
  assumes "a < length (heap w)"
    and "heap w ! a = ParamsObj ps"
    and "distinct (map fst ps)"
    and "list_all (\<lambda>(k, v). (\<exists>ek. encodeURIComponent k = Inr ek)
        \<and> (\<exists>s. encodeURIComponent (ToString v) = Inr s)) ps"
  shows "\<exists>w' q. buildQueryString a w = (w', Inr q)"
proof -
  have get: "get_params a w = (w, Inr ps)"
    using assms(1,2) by (simp add: get_params_def)
  have "list_all (\<lambda>(k, v). \<exists>s. encodeURIComponent (ToString v) = Inr s) ps"
    using assms(4) by (auto simp: list_all_iff)
  from encode_each_run [OF assms(1), of "[]" ps] assms(2,3) this
  obtain w1 where each: "encode_each a (map fst ps) w = (w1, Inr ())" by auto
  from encode_each_success [OF each assms(1), of "[]"] assms(2,3)
  obtain ps' where
    enc: "list_all2 (\<lambda>(k, v) (k', v'). k' = k \<and> (\<exists>s. encodeURIComponent (ToString v) = Inr s \<and> v' = Some s))
        ps ps'"
    and w1: "w1 = w\<lparr>heap := (heap w)[a := ParamsObj ps']\<rparr>"
    by auto
  have get1: "get_params a w1 = (w1, Inr ps')"
    using assms(1) by (simp add: get_params_def w1)
  have "list_all (\<lambda>(k, v). (\<exists>ek. encodeURIComponent k = Inr ek)
      \<and> (\<exists>ev. encodeURIComponent (stringifyPrimitive v) = Inr ev)) ps'"
    unfolding list_all_length
  proof (intro allI impI)
    fix i assume i: "i < length ps'"
    with enc have len: "i < length ps" by (simp add: list_all2_lengthD)
    obtain k v where kv: "ps ! i = (k, v)" by (cases "ps ! i")
    obtain k' v' where kv': "ps' ! i = (k', v')" by (cases "ps' ! i")
    from list_all2_nthD [OF enc len] kv kv' obtain s where
      k': "k' = k" and s: "encodeURIComponent (ToString v) = Inr s" and v': "v' = Some s"
      by auto
    from assms(4) len kv obtain ek where ek: "encodeURIComponent k = Inr ek"
      by (auto simp: list_all_length)
    from encodeURIComponent_again [OF encodeURIComponent_safe [OF s]]
    obtain ev where "encodeURIComponent s = Inr ev" ..
    with ek k' v' kv' show "case ps' ! i of (k, v) \<Rightarrow> (\<exists>ek. encodeURIComponent k = Inr ek)
        \<and> (\<exists>ev. encodeURIComponent (stringifyPrimitive v) = Inr ev)"
      by (simp add: stringifyPrimitive_def)
  qed
  from stringify_fields_run [OF this] obtain fs where "stringify_fields ps' = Inr fs" ..
  then show ?thesis
    using get each get1
    by (simp add: buildQueryString_def bind_def lift_def querystring_stringify_def and_then_def)
qed

text \<open>\<^verbatim>\<open>CreateRedirect\<close> returns when the values it encodes have no unpaired surrogate; that
  is so, in particular, when they have no surrogate code units at all.\<close>

lemma CreateRedirect_returns:
  assumes "p < length (heap w)" and "heap w ! p = ProviderObj pr"
    and "\<exists>s. encodeURIComponent (ToString (clientId pr)) = Inr s"
    and "\<exists>s. encodeURIComponent (ToString r) = Inr s"
    and "\<exists>s. encodeURIComponent (ToString l) = Inr s"
    and "\<exists>s. encodeURIComponent (ToString (scope pr)) = Inr s"
    and "\<exists>s. encodeURIComponent (ToString (state pr)) = Inr s"
  shows "\<exists>w' out. CreateRedirect p r l w = (w', Inr out)"
proof -
  let ?ps = "[(str ''client_id'', clientId pr),
              (str ''display'', Some (str ''page'')),
              (str ''locale'', if \<not> truthy_string l then Some (str ''en'') else l),
              (str ''redirect_uri'', r),
              (str ''response_type'', Some (str ''code''))]
             @ (if truthy_flag (offline pr) then [(str ''access_type'', Some (str ''offline''))] else [])
             @ (if truthy_string (scope pr) then [(str ''scope'', scope pr)] else [])
             @ (if truthy_string (state pr) then [(str ''state'', state pr)] else [])"
  let ?wB = "w\<lparr>heap := heap w @ [ParamsObj ?ps]\<rparr>"
  have lt: "length (heap w) < length (heap ?wB)" by simp
  have at: "heap ?wB ! length (heap w) = ParamsObj ?ps" by simp
  have dist: "distinct (map fst ?ps)" by (simp add: str_def)
  have plain: "\<exists>s. encodeURIComponent (str k) = Inr s"
    if "list_all uri_unescaped (str k)" for k
    using encodeURIComponent_unescaped [OF that] by blast
  have keys: "\<exists>s. encodeURIComponent (str ''client_id'') = Inr s"
    "\<exists>s. encodeURIComponent (str ''display'') = Inr s"
    "\<exists>s. encodeURIComponent (str ''locale'') = Inr s"
    "\<exists>s. encodeURIComponent (str ''redirect_uri'') = Inr s"
    "\<exists>s. encodeURIComponent (str ''response_type'') = Inr s"
    "\<exists>s. encodeURIComponent (str ''access_type'') = Inr s"
    "\<exists>s. encodeURIComponent (str ''scope'') = Inr s"
    "\<exists>s. encodeURIComponent (str ''state'') = Inr s"
    "\<exists>s. encodeURIComponent (str ''page'') = Inr s"
    "\<exists>s. encodeURIComponent (str ''code'') = Inr s"
    "\<exists>s. encodeURIComponent (str ''en'') = Inr s"
    "\<exists>s. encodeURIComponent (str ''offline'') = Inr s"
    by (rule plain, simp add: str_def uri_unescaped_def)+
  have "list_all (\<lambda>(k, v). (\<exists>ek. encodeURIComponent k = Inr ek)
        \<and> (\<exists>s. encodeURIComponent (ToString v) = Inr s)) ?ps"
    using assms(3-7) keys by (simp add: ToString_def)
  from buildQueryString_returns [OF lt at dist this]
  obtain w' q where "buildQueryString (length (heap w)) ?wB = (w', Inr q)" by blast
  then show ?thesis
    unfolding CreateRedirect_unfold [OF assms(1,2)] by (simp add: bind_def ret_def)
qed

text \<open>
  C6. A descriptor with \<open>clientId\<close> and \<open>authUri\<close> set and \<open>offline\<close>, \<open>scope\<close>, \<open>state\<close>
  absent or falsy: the redirect that \<^verbatim>\<open>CreateRedirect\<close> returns is \<open>authUri\<close>, a question
  mark, and exactly the five fields \<^verbatim>\<open>client_id\<close>, \<^verbatim>\<open>display=page\<close>, \<^verbatim>\<open>locale\<close>,
  \<^verbatim>\<open>redirect_uri\<close>, \<^verbatim>\<open>response_type=code\<close> joined by \<^verbatim>\<open>&\<close>, with no optional field. The
  three variable values are the encoded \<open>clientId\<close>, locale and redirect URI, and consist
  of unescaped characters and \<^verbatim>\<open>%\<close> only (so they hold no \<^verbatim>\<open>&\<close>, \<^verbatim>\<open>=\<close>, \<^verbatim>\<open>?\<close> or \<^verbatim>\<open>#\<close>).
  And \<^verbatim>\<open>CreateRedirect\<close> does return a redirect whenever \<^verbatim>\<open>encodeURIComponent\<close> accepts
  the three values, that is, whenever they have no unpaired surrogate.
\<close>

theorem CreateRedirect_required_only:
  assumes "p < length (heap w)" and "heap w ! p = ProviderObj pr"
    and "clientId pr = Some c" and "authUri pr = Some a"
    and "\<not> truthy_flag (offline pr)" and "\<not> truthy_string (scope pr)"
    and "\<not> truthy_string (state pr)"
  shows "(CreateRedirect p r l w = (w', Inr out) \<longrightarrow>
      (\<exists>c1 c2 l1 l2 r1 r2.
          encodeURIComponent c = Inr c1 \<and> encodeURIComponent c1 = Inr c2
        \<and> encodeURIComponent (if truthy_string l then ToString l else str ''en'') = Inr l1
        \<and> encodeURIComponent l1 = Inr l2
        \<and> encodeURIComponent (ToString r) = Inr r1 \<and> encodeURIComponent r1 = Inr r2
        \<and> out = a @ str ''?client_id='' @ c2 @ str ''&display=page&locale='' @ l2
            @ str ''&redirect_uri='' @ r2 @ str ''&response_type=code''
        \<and> list_all (\<lambda>x. uri_unescaped x \<or> x = 0x25) c2
        \<and> list_all (\<lambda>x. uri_unescaped x \<or> x = 0x25) l2
        \<and> list_all (\<lambda>x. uri_unescaped x \<or> x = 0x25) r2))
    \<and> ((\<exists>s. encodeURIComponent c = Inr s) \<and> (\<exists>s. encodeURIComponent (ToString r) = Inr s)
        \<and> (\<exists>s. encodeURIComponent (ToString l) = Inr s) \<longrightarrow>
      (\<exists>w1 url. CreateRedirect p r l w = (w1, Inr url)))"
proof (intro conjI impI)
  assume run: "CreateRedirect p r l w = (w', Inr out)"
  from CreateRedirect_form [OF assms(1,2) run] assms(5,6,7)
  obtain c1 c2 l1 l2 r1 r2 where
    c: "encodeURIComponent (ToString (clientId pr)) = Inr c1" "encodeURIComponent c1 = Inr c2"
    and l: "encodeURIComponent (if truthy_string l then ToString l else str ''en'') = Inr l1"
      "encodeURIComponent l1 = Inr l2"
    and r: "encodeURIComponent (ToString r) = Inr r1" "encodeURIComponent r1 = Inr r2"
    and out: "out = ToString (authUri pr) @ str ''?client_id='' @ c2
        @ str ''&display=page&locale='' @ l2 @ str ''&redirect_uri='' @ r2
        @ str ''&response_type=code'' @ []"
    by blast
  from c(1) assms(3) have c': "encodeURIComponent c = Inr c1" by (simp add: ToString_def)
  from out assms(4) have out': "out = a @ str ''?client_id='' @ c2 @ str ''&display=page&locale='' @ l2
        @ str ''&redirect_uri='' @ r2 @ str ''&response_type=code''"
    by (simp add: ToString_def)
  from c' c(2) l r out' encodeURIComponent_safe [OF c(2)] encodeURIComponent_safe [OF l(2)]
    encodeURIComponent_safe [OF r(2)]
  show "\<exists>c1 c2 l1 l2 r1 r2.
          encodeURIComponent c = Inr c1 \<and> encodeURIComponent c1 = Inr c2
        \<and> encodeURIComponent (if truthy_string l then ToString l else str ''en'') = Inr l1
        \<and> encodeURIComponent l1 = Inr l2
        \<and> encodeURIComponent (ToString r) = Inr r1 \<and> encodeURIComponent r1 = Inr r2
        \<and> out = a @ str ''?client_id='' @ c2 @ str ''&display=page&locale='' @ l2
            @ str ''&redirect_uri='' @ r2 @ str ''&response_type=code''
        \<and> list_all (\<lambda>x. uri_unescaped x \<or> x = 0x25) c2
        \<and> list_all (\<lambda>x. uri_unescaped x \<or> x = 0x25) l2
        \<and> list_all (\<lambda>x. uri_unescaped x \<or> x = 0x25) r2"
    by blast
next
  assume enc: "(\<exists>s. encodeURIComponent c = Inr s) \<and> (\<exists>s. encodeURIComponent (ToString r) = Inr s)
        \<and> (\<exists>s. encodeURIComponent (ToString l) = Inr s)"
  have undefined: "\<exists>s. encodeURIComponent (str ''undefined'') = Inr s"
    using encodeURIComponent_unescaped [of "str ''undefined''"]
    by (simp add: str_def uri_unescaped_def)
  have falsy: "\<exists>s. encodeURIComponent (ToString v) = Inr s" if "\<not> truthy_string v" for v
    using that undefined by (cases v) (simp_all add: truthy_string_def ToString_def)
  show "\<exists>w1 url. CreateRedirect p r l w = (w1, Inr url)"
    by (rule CreateRedirect_returns [OF assms(1,2)])
       (use enc assms(3) falsy [OF assms(6)] falsy [OF assms(7)] in \<open>simp_all add: ToString_def\<close>)
qed

theorem CreateRedirect_required_only_witness:
  "(\<exists>c1 c2 l1 l2 r1 r2.
      encodeURIComponent (str ''my id'') = Inr c1 \<and> encodeURIComponent c1 = Inr c2
    \<and> encodeURIComponent (str ''en'') = Inr l1 \<and> encodeURIComponent l1 = Inr l2
    \<and> encodeURIComponent (str ''https://a.io/cb'') = Inr r1 \<and> encodeURIComponent r1 = Inr r2
    \<and> str ''https://graph.facebook.com/oauth/authorize?client_id=my%2520id&display=page&locale=en&redirect_uri=https%253A%252F%252Fa.io%252Fcb&response_type=code'' =
        str ''https://graph.facebook.com/oauth/authorize'' @ str ''?client_id='' @ c2
        @ str ''&display=page&locale='' @ l2 @ str ''&redirect_uri='' @ r2
        @ str ''&response_type=code''
    \<and> list_all (\<lambda>x. uri_unescaped x \<or> x = 0x25) c2
    \<and> list_all (\<lambda>x. uri_unescaped x \<or> x = 0x25) l2
    \<and> list_all (\<lambda>x. uri_unescaped x \<or> x = 0x25) r2)
   \<and> (\<exists>w1 url. CreateRedirect 0 (Some (str ''https://a.io/cb'')) None
         \<lparr>heap = [ProviderObj \<lparr>clientId = Some (str ''my id''), clientSecret = None,
             authUri = Some (str ''https://graph.facebook.com/oauth/authorize''),
             accessTokenUri = None, userInfoUri = None, scope = None, state = None,
             offline = None\<rparr>],
          sent = [], delivered = []\<rparr> = (w1, Inr url))"
proof -
  let ?pr = "\<lparr>clientId = Some (str ''my id''), clientSecret = None,
         authUri = Some (str ''https://graph.facebook.com/oauth/authorize''),
         accessTokenUri = None, userInfoUri = None, scope = None, state = None,
         offline = None\<rparr>"
  let ?w0 = "\<lparr>heap = [ProviderObj ?pr], sent = [], delivered = []\<rparr>"
  have enc: "\<exists>s. encodeURIComponent (str ''my id'') = Inr s"
    "\<exists>s. encodeURIComponent (ToString (Some (str ''https://a.io/cb''))) = Inr s"
    "\<exists>s. encodeURIComponent (ToString None) = Inr s"
    by (rule encodeURIComponent_no_surrogate, simp add: str_def ToString_def)+
  note inst = CreateRedirect_required_only [of 0 ?w0 ?pr "str ''my id''"
      "str ''https://graph.facebook.com/oauth/authorize''" "Some (str ''https://a.io/cb'')" None]
  from inst [THEN conjunct1, rule_format, OF _ _ _ _ _ _ _ run_CreateRedirect_example]
    inst [THEN conjunct2, rule_format] enc
  show ?thesis
    by (simp add: truthy_string_def truthy_flag_def ToString_def)
qed

text \<open>
  C8. \<^verbatim>\<open>CreateRedirect\<close> returns a redirect whenever \<^verbatim>\<open>encodeURIComponent\<close> accepts the values
  it encodes (they have no unpaired surrogate), and in every redirect it returns the
  \<^verbatim>\<open>locale\<close> field follows \<^verbatim>\<open>client_id\<close> and \<^verbatim>\<open>display=page\<close>; its value is \<^verbatim>\<open>en\<close> when the
  locale argument is omitted or falsy, and otherwise the encoded locale passed in, which
  is the locale itself when it consists of unescaped characters (letters, digits, \<^verbatim>\<open>-\<close>,
  \<^verbatim>\<open>_\<close>, ...).
\<close>

theorem CreateRedirect_locale:
  assumes "p < length (heap w)" and "heap w ! p = ProviderObj pr"
  shows "(CreateRedirect p r l w = (w', Inr out) \<longrightarrow>
      (\<exists>c2 l2 rest.
          out = ToString (authUri pr) @ str ''?client_id='' @ c2 @ str ''&display=page&locale='' @ l2
            @ str ''&redirect_uri='' @ rest
        \<and> list_all (\<lambda>x. uri_unescaped x \<or> x = 0x25) c2
        \<and> list_all (\<lambda>x. uri_unescaped x \<or> x = 0x25) l2
        \<and> (\<not> truthy_string l \<longrightarrow> l2 = str ''en'')
        \<and> (truthy_string l \<longrightarrow>
              (\<exists>l1. encodeURIComponent (ToString l) = Inr l1 \<and> encodeURIComponent l1 = Inr l2)
            \<and> (list_all uri_unescaped (ToString l) \<longrightarrow> l2 = ToString l))))
    \<and> ((\<exists>s. encodeURIComponent (ToString (clientId pr)) = Inr s)
        \<and> (\<exists>s. encodeURIComponent (ToString r) = Inr s)
        \<and> (truthy_string l \<longrightarrow> (\<exists>s. encodeURIComponent (ToString l) = Inr s))
        \<and> (truthy_string (scope pr) \<longrightarrow> (\<exists>s. encodeURIComponent (ToString (scope pr)) = Inr s))
        \<and> (truthy_string (state pr) \<longrightarrow> (\<exists>s. encodeURIComponent (ToString (state pr)) = Inr s))
      \<longrightarrow> (\<exists>w1 url. CreateRedirect p r l w = (w1, Inr url)))"
proof (intro conjI impI)
  assume run: "CreateRedirect p r l w = (w', Inr out)"
  from CreateRedirect_form [OF assms run]
  obtain c1 c2 l1 l2 r1 r2 rest where
    c: "encodeURIComponent c1 = Inr c2"
    and l: "encodeURIComponent (if truthy_string l then ToString l else str ''en'') = Inr l1"
      "encodeURIComponent l1 = Inr l2"
    and out: "out = ToString (authUri pr) @ str ''?client_id='' @ c2
        @ str ''&display=page&locale='' @ l2 @ str ''&redirect_uri='' @ r2
        @ str ''&response_type=code'' @ rest"
    by blast
  have en: "l2 = str ''en''" if "\<not> truthy_string l"
  proof -
    from l(1) that have "l1 = str ''en''" by (simp add: keys_unescaped)
    with l(2) show ?thesis by (simp add: keys_unescaped)
  qed
  have same: "l2 = ToString l" if "truthy_string l" "list_all uri_unescaped (ToString l)"
  proof -
    from l(1) that have "l1 = ToString l" by (simp add: encodeURIComponent_unescaped)
    with l(2) that(2) show ?thesis by (simp add: encodeURIComponent_unescaped)
  qed
  have twice: "\<exists>l1. encodeURIComponent (ToString l) = Inr l1 \<and> encodeURIComponent l1 = Inr l2"
    if "truthy_string l"
    using l that by auto
  from out have "out = ToString (authUri pr) @ str ''?client_id='' @ c2
        @ str ''&display=page&locale='' @ l2 @ str ''&redirect_uri=''
        @ (r2 @ str ''&response_type=code'' @ rest)"
    by simp
  with en same twice encodeURIComponent_safe [OF c] encodeURIComponent_safe [OF l(2)]
  show "\<exists>c2 l2 rest.
          out = ToString (authUri pr) @ str ''?client_id='' @ c2 @ str ''&display=page&locale='' @ l2
            @ str ''&redirect_uri='' @ rest
        \<and> list_all (\<lambda>x. uri_unescaped x \<or> x = 0x25) c2
        \<and> list_all (\<lambda>x. uri_unescaped x \<or> x = 0x25) l2
        \<and> (\<not> truthy_string l \<longrightarrow> l2 = str ''en'')
        \<and> (truthy_string l \<longrightarrow>
              (\<exists>l1. encodeURIComponent (ToString l) = Inr l1 \<and> encodeURIComponent l1 = Inr l2)
            \<and> (list_all uri_unescaped (ToString l) \<longrightarrow> l2 = ToString l))"
    by blast
next
  assume enc: "(\<exists>s. encodeURIComponent (ToString (clientId pr)) = Inr s)
        \<and> (\<exists>s. encodeURIComponent (ToString r) = Inr s)
        \<and> (truthy_string l \<longrightarrow> (\<exists>s. encodeURIComponent (ToString l) = Inr s))
        \<and> (truthy_string (scope pr) \<longrightarrow> (\<exists>s. encodeURIComponent (ToString (scope pr)) = Inr s))
        \<and> (truthy_string (state pr) \<longrightarrow> (\<exists>s. encodeURIComponent (ToString (state pr)) = Inr s))"
  have absent: "\<exists>s. encodeURIComponent (str ''undefined'') = Inr s"
    using encodeURIComponent_unescaped [of "str ''undefined''"]
    by (simp add: str_def uri_unescaped_def)
  have falsy: "\<exists>s. encodeURIComponent (ToString v) = Inr s" if "\<not> truthy_string v" for v
    using that absent by (cases v) (simp_all add: truthy_string_def ToString_def)
  have l: "\<exists>s. encodeURIComponent (ToString l) = Inr s"
    using enc falsy [of l] by blast
  have sc: "\<exists>s. encodeURIComponent (ToString (scope pr)) = Inr s"
    using enc falsy [of "scope pr"] by blast
  have st: "\<exists>s. encodeURIComponent (ToString (state pr)) = Inr s"
    using enc falsy [of "state pr"] by blast
  from enc have c: "\<exists>s. encodeURIComponent (ToString (clientId pr)) = Inr s"
    and r: "\<exists>s. encodeURIComponent (ToString r) = Inr s"
    by blast+
  show "\<exists>w1 url. CreateRedirect p r l w = (w1, Inr url)"
    by (rule CreateRedirect_returns [OF assms c r l sc st])
qed

lemma run_CreateRedirect_locale_example:
  "CreateRedirect 0 (Some (str ''https://a.io/cb'')) (Some (str ''nb_NO''))
     \<lparr>heap = [ProviderObj \<lparr>clientId = Some (str ''id''), clientSecret = None,
         authUri = Some (str ''https://b.io/auth''),
         accessTokenUri = None, userInfoUri = None, scope = Some (str ''email''), state = None,
         offline = None\<rparr>],
      sent = [], delivered = []\<rparr> =
   (\<lparr>heap = [ProviderObj \<lparr>clientId = Some (str ''id''), clientSecret = None,
         authUri = Some (str ''https://b.io/auth''),
         accessTokenUri = None, userInfoUri = None, scope = Some (str ''email''), state = None,
         offline = None\<rparr>,
       ParamsObj [(str ''client_id'', Some (str ''id'')),
         (str ''display'', Some (str ''page'')),
         (str ''locale'', Some (str ''nb_NO'')),
         (str ''redirect_uri'', Some (str ''https%3A%2F%2Fa.io%2Fcb'')),
         (str ''response_type'', Some (str ''code'')),
         (str ''scope'', Some (str ''email''))]],
      sent = [], delivered = []\<rparr>,
    Inr (str ''https://b.io/auth?client_id=id&display=page&locale=nb_NO&redirect_uri=https%253A%252F%252Fa.io%252Fcb&response_type=code&scope=email''))"
  by (simp add: CreateRedirect_def prog_eval)

theorem CreateRedirect_locale_witness:
  "CreateRedirect 0 (Some (str ''https://a.io/cb'')) None
     \<lparr>heap = [ProviderObj \<lparr>clientId = Some (str ''my id''), clientSecret = None,
         authUri = Some (str ''https://graph.facebook.com/oauth/authorize''),
         accessTokenUri = None, userInfoUri = None, scope = None, state = None,
         offline = None\<rparr>],
      sent = [], delivered = []\<rparr> =
   (\<lparr>heap = [ProviderObj \<lparr>clientId = Some (str ''my id''), clientSecret = None,
         authUri = Some (str ''https://graph.facebook.com/oauth/authorize''),
         accessTokenUri = None, userInfoUri = None, scope = None, state = None,
         offline = None\<rparr>,
       ParamsObj [(str ''client_id'', Some (str ''my%20id'')),
         (str ''display'', Some (str ''page'')),
         (str ''locale'', Some (str ''en'')),
         (str ''redirect_uri'', Some (str ''https%3A%2F%2Fa.io%2Fcb'')),
         (str ''response_type'', Some (str ''code''))]],
      sent = [], delivered = []\<rparr>,
    Inr (str ''https://graph.facebook.com/oauth/authorize?client_id=my%2520id&display=page&locale=en&redirect_uri=https%253A%252F%252Fa.io%252Fcb&response_type=code''))
   \<and> (\<exists>c2 l2 rest.
      str ''https://graph.facebook.com/oauth/authorize?client_id=my%2520id&display=page&locale=en&redirect_uri=https%253A%252F%252Fa.io%252Fcb&response_type=code'' =
        str ''https://graph.facebook.com/oauth/authorize'' @ str ''?client_id='' @ c2
        @ str ''&display=page&locale='' @ l2 @ str ''&redirect_uri='' @ rest
      \<and> list_all (\<lambda>x. uri_unescaped x \<or> x = 0x25) c2
      \<and> list_all (\<lambda>x. uri_unescaped x \<or> x = 0x25) l2
      \<and> l2 = str ''en'')
   \<and> CreateRedirect 0 (Some (str ''https://a.io/cb'')) (Some (str ''nb_NO''))
     \<lparr>heap = [ProviderObj \<lparr>clientId = Some (str ''id''), clientSecret = None,
         authUri = Some (str ''https://b.io/auth''),
         accessTokenUri = None, userInfoUri = None, scope = Some (str ''email''), state = None,
         offline = None\<rparr>],
      sent = [], delivered = []\<rparr> =
   (\<lparr>heap = [ProviderObj \<lparr>clientId = Some (str ''id''), clientSecret = None,
         authUri = Some (str ''https://b.io/auth''),
         accessTokenUri = None, userInfoUri = None, scope = Some (str ''email''), state = None,
         offline = None\<rparr>,
       ParamsObj [(str ''client_id'', Some (str ''id'')),
         (str ''display'', Some (str ''page'')),
         (str ''locale'', Some (str ''nb_NO'')),
         (str ''redirect_uri'', Some (str ''https%3A%2F%2Fa.io%2Fcb'')),
         (str ''response_type'', Some (str ''code'')),
         (str ''scope'', Some (str ''email''))]],
      sent = [], delivered = []\<rparr>,
    Inr (str ''https://b.io/auth?client_id=id&display=page&locale=nb_NO&redirect_uri=https%253A%252F%252Fa.io%252Fcb&response_type=code&scope=email''))
   \<and> (\<exists>c2 l2 rest.
      str ''https://b.io/auth?client_id=id&display=page&locale=nb_NO&redirect_uri=https%253A%252F%252Fa.io%252Fcb&response_type=code&scope=email'' =
        str ''https://b.io/auth'' @ str ''?client_id='' @ c2
        @ str ''&display=page&locale='' @ l2 @ str ''&redirect_uri='' @ rest
      \<and> list_all (\<lambda>x. uri_unescaped x \<or> x = 0x25) c2
      \<and> list_all (\<lambda>x. uri_unescaped x \<or> x = 0x25) l2
      \<and> l2 = str ''nb_NO'')
   \<and> (\<exists>w1 url. CreateRedirect 0 (Some (str ''https://a.io/cb'')) (Some (str ''de-CH''))
         \<lparr>heap = [ProviderObj \<lparr>clientId = Some (str ''id''), clientSecret = None,
             authUri = Some (str ''https://b.io/auth''),
             accessTokenUri = None, userInfoUri = None, scope = Some (str ''email''),
             state = None, offline = None\<rparr>],
          sent = [], delivered = []\<rparr> = (w1, Inr url))"
proof (intro conjI)
  let ?pr1 = "\<lparr>clientId = Some (str ''my id''), clientSecret = None,
         authUri = Some (str ''https://graph.facebook.com/oauth/authorize''),
         accessTokenUri = None, userInfoUri = None, scope = None, state = None,
         offline = None\<rparr>"
  let ?pr2 = "\<lparr>clientId = Some (str ''id''), clientSecret = None,
         authUri = Some (str ''https://b.io/auth''),
         accessTokenUri = None, userInfoUri = None, scope = Some (str ''email''), state = None,
         offline = None\<rparr>"
  let ?w2 = "\<lparr>heap = [ProviderObj ?pr2], sent = [], delivered = []\<rparr>"
  show "CreateRedirect 0 (Some (str ''https://a.io/cb'')) None
     \<lparr>heap = [ProviderObj ?pr1], sent = [], delivered = []\<rparr> =
   (\<lparr>heap = [ProviderObj ?pr1,
       ParamsObj [(str ''client_id'', Some (str ''my%20id'')),
         (str ''display'', Some (str ''page'')),
         (str ''locale'', Some (str ''en'')),
         (str ''redirect_uri'', Some (str ''https%3A%2F%2Fa.io%2Fcb'')),
         (str ''response_type'', Some (str ''code''))]],
      sent = [], delivered = []\<rparr>,
    Inr (str ''https://graph.facebook.com/oauth/authorize?client_id=my%2520id&display=page&locale=en&redirect_uri=https%253A%252F%252Fa.io%252Fcb&response_type=code''))"
    by (rule run_CreateRedirect_example)
  show "CreateRedirect 0 (Some (str ''https://a.io/cb'')) (Some (str ''nb_NO'')) ?w2 =
   (\<lparr>heap = [ProviderObj ?pr2,
       ParamsObj [(str ''client_id'', Some (str ''id'')),
         (str ''display'', Some (str ''page'')),
         (str ''locale'', Some (str ''nb_NO'')),
         (str ''redirect_uri'', Some (str ''https%3A%2F%2Fa.io%2Fcb'')),
         (str ''response_type'', Some (str ''code'')),
         (str ''scope'', Some (str ''email''))]],
      sent = [], delivered = []\<rparr>,
    Inr (str ''https://b.io/auth?client_id=id&display=page&locale=nb_NO&redirect_uri=https%253A%252F%252Fa.io%252Fcb&response_type=code&scope=email''))"
    by (rule run_CreateRedirect_locale_example)
  have omitted: "\<not> truthy_string None" by (simp add: truthy_string_def)
  from CreateRedirect_locale [THEN conjunct1, rule_format, OF _ _ run_CreateRedirect_example]
    omitted
  show "\<exists>c2 l2 rest.
      str ''https://graph.facebook.com/oauth/authorize?client_id=my%2520id&display=page&locale=en&redirect_uri=https%253A%252F%252Fa.io%252Fcb&response_type=code'' =
        str ''https://graph.facebook.com/oauth/authorize'' @ str ''?client_id='' @ c2
        @ str ''&display=page&locale='' @ l2 @ str ''&redirect_uri='' @ rest
      \<and> list_all (\<lambda>x. uri_unescaped x \<or> x = 0x25) c2
      \<and> list_all (\<lambda>x. uri_unescaped x \<or> x = 0x25) l2
      \<and> l2 = str ''en''"
    by (fastforce simp: ToString_def)
  have plain: "list_all uri_unescaped (ToString (Some (str ''nb_NO'')))"
    by (simp add: str_def uri_unescaped_def ToString_def)
  have given: "truthy_string (Some (str ''nb_NO''))"
    by (simp add: str_def truthy_string_def)
  from CreateRedirect_locale [THEN conjunct1, rule_format, OF _ _ run_CreateRedirect_locale_example]
    plain given
  show "\<exists>c2 l2 rest.
      str ''https://b.io/auth?client_id=id&display=page&locale=nb_NO&redirect_uri=https%253A%252F%252Fa.io%252Fcb&response_type=code&scope=email'' =
        str ''https://b.io/auth'' @ str ''?client_id='' @ c2
        @ str ''&display=page&locale='' @ l2 @ str ''&redirect_uri='' @ rest
      \<and> list_all (\<lambda>x. uri_unescaped x \<or> x = 0x25) c2
      \<and> list_all (\<lambda>x. uri_unescaped x \<or> x = 0x25) l2
      \<and> l2 = str ''nb_NO''"
    by (fastforce simp: ToString_def)
  have enc: "\<exists>s. encodeURIComponent (ToString (Some (str ''id''))) = Inr s"
    "\<exists>s. encodeURIComponent (ToString (Some (str ''https://a.io/cb''))) = Inr s"
    "\<exists>s. encodeURIComponent (ToString (Some (str ''de-CH''))) = Inr s"
    "\<exists>s. encodeURIComponent (ToString (Some (str ''email''))) = Inr s"
    by (rule encodeURIComponent_no_surrogate, simp add: str_def ToString_def)+
  have none: "\<not> truthy_string None" by (simp add: truthy_string_def)
  from CreateRedirect_locale [of 0 ?w2 ?pr2 "Some (str ''https://a.io/cb'')" "Some (str ''de-CH'')",
      THEN conjunct2, rule_format] enc none
  show "\<exists>w1 url. CreateRedirect 0 (Some (str ''https://a.io/cb'')) (Some (str ''de-CH'')) ?w2 =
      (w1, Inr url)"
    by simp
qed

section \<open>The descriptor is never written\<close>

lemma preserves_ret: "preserves n (ret x)"
  by (simp add: preserves_def ret_def)

lemma preserves_throw: "preserves n (throw e)"
  by (simp add: preserves_def throw_def)

lemma preserves_lift: "preserves n (lift r)"
  by (simp add: preserves_def lift_def)

lemma preserves_bind:
  assumes "preserves n m" and "\<And>x. preserves n (f x)"
  shows "preserves n (bind m f)"
  unfolding preserves_def
proof (intro allI impI)
  fix w w' r
  assume n: "n \<le> length (heap w)" and run: "bind m f w = (w', r)"
  obtain w1 r1 where m: "m w = (w1, r1)" by (cases "m w")
  from assms(1) n m have 1: "n \<le> length (heap w1)" "take n (heap w1) = take n (heap w)"
    by (auto simp: preserves_def)
  show "n \<le> length (heap w') \<and> take n (heap w') = take n (heap w)"
  proof (cases r1)
    case (Inl e)
    with run m have "w' = w1" by (simp add: bind_def)
    with 1 show ?thesis by simp
  next
    case (Inr x)
    with run m have "f x w1 = (w', r)" by (simp add: bind_def)
    with assms(2) [of x] 1 show ?thesis by (auto simp: preserves_def)
  qed
qed

lemma preserves_bind_new_object:
  assumes "\<And>a. n \<le> a \<Longrightarrow> preserves n (f a)"
  shows "preserves n (bind (new_object c) f)"
  unfolding preserves_def
proof (intro allI impI)
  fix w w' r
  assume n: "n \<le> length (heap w)" and run: "bind (new_object c) f w = (w', r)"
  then have run': "f (length (heap w)) (w\<lparr>heap := heap w @ [c]\<rparr>) = (w', r)"
    by (simp add: bind_def new_object_def)
  let ?w1 = "w\<lparr>heap := heap w @ [c]\<rparr>"
  have "n \<le> length (heap ?w1)" using n by simp
  with assms [OF n] run'
  have "n \<le> length (heap w') \<and> take n (heap w') = take n (heap ?w1)"
    unfolding preserves_def by blast
  with n show "n \<le> length (heap w') \<and> take n (heap w') = take n (heap w)"
    by simp
qed

lemma preserves_provider_field: "preserves n (provider_field p f)"
  by (auto simp: preserves_def provider_field_def split: if_splits cell.splits)

lemma preserves_get_params: "preserves n (get_params a)"
  by (auto simp: preserves_def get_params_def split: if_splits cell.splits)

lemma preserves_get_param: "preserves n (get_param a k)"
  unfolding get_param_def by (intro preserves_bind preserves_get_params preserves_ret)

lemma preserves_set_param: "n \<le> a \<Longrightarrow> preserves n (set_param a k v)"
  by (auto simp: preserves_def set_param_def split: if_splits cell.splits)

lemma preserves_set_if: "n \<le> a \<Longrightarrow> preserves n (set_if c a k v)"
  by (simp add: set_if_def preserves_set_param preserves_ret)

lemma preserves_update_token: "n \<le> a \<Longrightarrow> preserves n (update_token a f)"
  by (auto simp: preserves_def update_token_def split: if_splits cell.splits)

lemma preserves_encode_each: "n \<le> a \<Longrightarrow> preserves n (encode_each a ks)"
proof (induction ks)
  case Nil
  show ?case by (simp add: preserves_ret)
next
  case (Cons k ks)
  then show ?case
    by (simp del: bind_def)
       (intro preserves_bind preserves_get_param preserves_lift preserves_set_param, simp_all)
qed

lemma preserves_buildQueryString: "n \<le> a \<Longrightarrow> preserves n (buildQueryString a)"
  unfolding buildQueryString_def
  by (intro preserves_bind preserves_get_params preserves_encode_each preserves_lift)

lemma preserves_https_request: "preserves n (https_request ex)"
  by (simp add: preserves_def https_request_def)

lemma preserves_request: "preserves n (request uri method payload interpretBody)"
  by (auto simp: request_def Let_def preserves_throw preserves_https_request split: option.splits)

lemma preserves_callback: "preserves n (callback arg)"
  by (simp add: preserves_def callback_def)

lemma preserves_assign_if: "n \<le> a \<Longrightarrow> preserves n (assign_if reply k upd a)"
  unfolding assign_if_def
  by (intro preserves_bind preserves_lift) (simp add: preserves_update_token preserves_ret)

lemma preserves_interpretReply: "preserves n (interpretReply body)"
  unfolding interpretReply_def Let_def
  by (intro preserves_bind_new_object preserves_bind preserves_assign_if preserves_ret)

lemma preserves_respond: "preserves n (respond ex chunks)"
  unfolding respond_def on_end_def
  by (auto intro!: preserves_bind preserves_interpretReply preserves_callback)

lemma preserves_CreateRedirect: "preserves n (CreateRedirect p r l)"
  unfolding CreateRedirect_def Let_def
  by (intro preserves_bind preserves_provider_field preserves_bind_new_object preserves_set_if
      preserves_buildQueryString preserves_ret)

lemma preserves_AuthenticateByCode: "preserves n (AuthenticateByCode p r c)"
  unfolding AuthenticateByCode_def
  by (intro preserves_bind preserves_provider_field preserves_bind_new_object preserves_set_if
      preserves_buildQueryString preserves_request)

lemma preserves_AuthenticateByToken: "preserves n (AuthenticateByToken p t)"
  unfolding AuthenticateByToken_def
  by (intro preserves_bind preserves_provider_field preserves_bind_new_object preserves_set_if
      preserves_buildQueryString preserves_request)

lemma preserves_GetUserInfo: "preserves n (GetUserInfo p t)"
  unfolding GetUserInfo_def
  by (intro preserves_bind preserves_provider_field preserves_bind_new_object
      preserves_buildQueryString preserves_request)

lemma preserves_whole_heap:
  "preserves (length (heap w)) m \<Longrightarrow> m w = (w', r) \<Longrightarrow>
   take (length (heap w)) (heap w') = heap w"
  by (auto simp: preserves_def)

lemma respond_interpreted:
  assumes "respond ex chunks w = (w', Inr u)" and "ex_interpret ex"
  shows "\<exists>t. w' = w\<lparr>heap := heap w @ [TokenObj t],
                    delivered := delivered w @ [TokenArg (length (heap w))]\<rparr>"
proof -
  define body where "body = foldl on_data [] chunks"
  define reply where "reply = (case JSON_parse body of None \<Rightarrow> Str body | Some v \<Rightarrow> v)"
  from assms have run: "bind (interpretReply body) (\<lambda>t. callback (TokenArg t)) w = (w', Inr u)"
    by (simp add: respond_def on_end_def body_def)
  have "JSON_parse body \<noteq> Some Null"
  proof
    assume "JSON_parse body = Some Null"
    from interpretReply_null [OF this, of w] run show False by (simp add: bind_def)
  qed
  then have "reply \<noteq> Null" "reply \<noteq> Undefined"
    using JSON_parse_defined [of body] by (auto simp: reply_def split: option.splits)
  then obtain v1 v2 v3 v4 v5 where
    "get_member reply (str ''access_token'') = Inr v1"
    "get_member reply (str ''refresh_token'') = Inr v2"
    "get_member reply (str ''state'') = Inr v3"
    "get_member reply (str ''expires'') = Inr v4"
    "get_member reply (str ''expires_in'') = Inr v5"
    using get_member_total by metis
  from interpretReply_fields [OF reply_def this, of w] run show ?thesis
    by (auto simp: bind_def callback_def)
qed

text \<open>
  C9. Whatever the result of \<^verbatim>\<open>CreateRedirect\<close>, \<^verbatim>\<open>AuthenticateByCode\<close>,
  \<^verbatim>\<open>AuthenticateByToken\<close>, \<^verbatim>\<open>GetUserInfo\<close> or of the response handler, every object that
  existed before the call is unchanged afterwards, the descriptor at \<open>p\<close> among them: the
  only writes go to objects the call itself created, which lie at new addresses. A
  redirect is built from one new \<^verbatim>\<open>parameters\<close> object, and an interpreted response hands
  the continuation one new token response.
\<close>

theorem descriptor_never_mutated:
  "(CreateRedirect p r l w = (w', res1) \<or> AuthenticateByCode p r c w = (w', res2)
      \<or> AuthenticateByToken p t w = (w', res2) \<or> GetUserInfo p t w = (w', res2)
      \<or> respond ex chunks w = (w', res2)
    \<longrightarrow> take (length (heap w)) (heap w') = heap w
        \<and> (p < length (heap w) \<longrightarrow> heap w' ! p = heap w ! p))
   \<and> (p < length (heap w) \<and> heap w ! p = ProviderObj pr \<and> CreateRedirect p r l w = (w', Inr out)
    \<longrightarrow> (\<exists>ps. w' = w\<lparr>heap := heap w @ [ParamsObj ps]\<rparr>))
   \<and> (respond ex chunks w = (w', Inr u) \<and> ex_interpret ex
    \<longrightarrow> (\<exists>tr. w' = w\<lparr>heap := heap w @ [TokenObj tr],
                       delivered := delivered w @ [TokenArg (length (heap w))]\<rparr>))"
proof (intro conjI impI)
  assume run: "CreateRedirect p r l w = (w', res1) \<or> AuthenticateByCode p r c w = (w', res2)
      \<or> AuthenticateByToken p t w = (w', res2) \<or> GetUserInfo p t w = (w', res2)
      \<or> respond ex chunks w = (w', res2)"
  then show old: "take (length (heap w)) (heap w') = heap w"
  proof (elim disjE)
    assume "CreateRedirect p r l w = (w', res1)"
    then show ?thesis by (rule preserves_whole_heap [OF preserves_CreateRedirect])
  next
    assume "AuthenticateByCode p r c w = (w', res2)"
    then show ?thesis by (rule preserves_whole_heap [OF preserves_AuthenticateByCode])
  next
    assume "AuthenticateByToken p t w = (w', res2)"
    then show ?thesis by (rule preserves_whole_heap [OF preserves_AuthenticateByToken])
  next
    assume "GetUserInfo p t w = (w', res2)"
    then show ?thesis by (rule preserves_whole_heap [OF preserves_GetUserInfo])
  next
    assume "respond ex chunks w = (w', res2)"
    then show ?thesis by (rule preserves_whole_heap [OF preserves_respond])
  qed
  assume "p < length (heap w)"
  then have "take (length (heap w)) (heap w') ! p = heap w' ! p" by simp
  with old show "heap w' ! p = heap w ! p" by simp
next
  let ?ps = "[(str ''client_id'', clientId pr),
              (str ''display'', Some (str ''page'')),
              (str ''locale'', if \<not> truthy_string l then Some (str ''en'') else l),
              (str ''redirect_uri'', r),
              (str ''response_type'', Some (str ''code''))]
             @ (if truthy_flag (offline pr) then [(str ''access_type'', Some (str ''offline''))] else [])
             @ (if truthy_string (scope pr) then [(str ''scope'', scope pr)] else [])
             @ (if truthy_string (state pr) then [(str ''state'', state pr)] else [])"
  let ?wB = "w\<lparr>heap := heap w @ [ParamsObj ?ps]\<rparr>"
  assume a: "p < length (heap w) \<and> heap w ! p = ProviderObj pr
      \<and> CreateRedirect p r l w = (w', Inr out)"
  then have "bind (buildQueryString (length (heap w)))
       (\<lambda>q. ret (ToString (authUri pr) @ str ''?'' @ q)) ?wB = (w', Inr out)"
    using CreateRedirect_unfold [of p w pr r l] by simp
  from bind_ret_success [OF this] obtain q where
    bq: "buildQueryString (length (heap w)) ?wB = (w', Inr q)" by blast
  have lt: "length (heap w) < length (heap ?wB)" by simp
  have at: "heap ?wB ! length (heap w) = ParamsObj ?ps" by simp
  have dist: "distinct (map fst ?ps)" by (simp add: str_def)
  from buildQueryString_success [OF bq lt at dist]
  obtain ps' where "w' = ?wB\<lparr>heap := (heap ?wB)[length (heap w) := ParamsObj ps']\<rparr>"
    by blast
  then have "w' = w\<lparr>heap := heap w @ [ParamsObj ps']\<rparr>" by simp
  then show "\<exists>ps. w' = w\<lparr>heap := heap w @ [ParamsObj ps]\<rparr>" ..
next
  assume "respond ex chunks w = (w', Inr u) \<and> ex_interpret ex"
  then show "\<exists>tr. w' = w\<lparr>heap := heap w @ [TokenObj tr],
                       delivered := delivered w @ [TokenArg (length (heap w))]\<rparr>"
    using respond_interpreted by blast
qed

theorem descriptor_never_mutated_witness:
  "CreateRedirect 0 (Some (str ''https://a.io/cb'')) None
     \<lparr>heap = [ProviderObj \<lparr>clientId = Some (str ''my id''), clientSecret = None,
         authUri = Some (str ''https://graph.facebook.com/oauth/authorize''),
         accessTokenUri = None, userInfoUri = None, scope = None, state = None,
         offline = None\<rparr>],
      sent = [], delivered = []\<rparr> =
   (\<lparr>heap = [ProviderObj \<lparr>clientId = Some (str ''my id''), clientSecret = None,
         authUri = Some (str ''https://graph.facebook.com/oauth/authorize''),
         accessTokenUri = None, userInfoUri = None, scope = None, state = None,
         offline = None\<rparr>,
       ParamsObj [(str ''client_id'', Some (str ''my%20id'')),
         (str ''display'', Some (str ''page'')),
         (str ''locale'', Some (str ''en'')),
         (str ''redirect_uri'', Some (str ''https%3A%2F%2Fa.io%2Fcb'')),
         (str ''response_type'', Some (str ''code''))]],
      sent = [], delivered = []\<rparr>,
    Inr (str ''https://graph.facebook.com/oauth/authorize?client_id=my%2520id&display=page&locale=en&redirect_uri=https%253A%252F%252Fa.io%252Fcb&response_type=code''))
   \<and> take 1 [ProviderObj \<lparr>clientId = Some (str ''my id''), clientSecret = None,
         authUri = Some (str ''https://graph.facebook.com/oauth/authorize''),
         accessTokenUri = None, userInfoUri = None, scope = None, state = None,
         offline = None\<rparr>,
       ParamsObj [(str ''client_id'', Some (str ''my%20id'')),
         (str ''display'', Some (str ''page'')),
         (str ''locale'', Some (str ''en'')),
         (str ''redirect_uri'', Some (str ''https%3A%2F%2Fa.io%2Fcb'')),
         (str ''response_type'', Some (str ''code''))]] =
      [ProviderObj \<lparr>clientId = Some (str ''my id''), clientSecret = None,
         authUri = Some (str ''https://graph.facebook.com/oauth/authorize''),
         accessTokenUri = None, userInfoUri = None, scope = None, state = None,
         offline = None\<rparr>]
   \<and> (\<exists>tr. respond \<lparr>ex_options = \<lparr>opt_host = [], opt_path = [], opt_port = 443,
              opt_method = str ''POST'', opt_content_type = [], opt_content_length = 0\<rparr>,
            ex_written = [], ex_ended = True, ex_interpret = True\<rparr>
          [str ''{\"access_token\":\"A\",'', str ''\"expires_in\":120}'']
          \<lparr>heap = [], sent = [], delivered = []\<rparr> =
        (\<lparr>heap = [TokenObj tr], sent = [], delivered = [TokenArg 0]\<rparr>, Inr ()))"
proof (intro conjI)
  let ?pr = "\<lparr>clientId = Some (str ''my id''), clientSecret = None,
         authUri = Some (str ''https://graph.facebook.com/oauth/authorize''),
         accessTokenUri = None, userInfoUri = None, scope = None, state = None,
         offline = None\<rparr>"
  let ?ps = "[(str ''client_id'', Some (str ''my%20id'')),
         (str ''display'', Some (str ''page'')),
         (str ''locale'', Some (str ''en'')),
         (str ''redirect_uri'', Some (str ''https%3A%2F%2Fa.io%2Fcb'')),
         (str ''response_type'', Some (str ''code''))]"
  let ?url = "str ''https://graph.facebook.com/oauth/authorize?client_id=my%2520id&display=page&locale=en&redirect_uri=https%253A%252F%252Fa.io%252Fcb&response_type=code''"
  let ?w0 = "\<lparr>heap = [ProviderObj ?pr], sent = [], delivered = []\<rparr>"
  let ?w1 = "\<lparr>heap = [ProviderObj ?pr, ParamsObj ?ps], sent = [], delivered = []\<rparr>"
  show run: "CreateRedirect 0 (Some (str ''https://a.io/cb'')) None ?w0 = (?w1, Inr ?url)"
    by (rule run_CreateRedirect_example)
  from descriptor_never_mutated [of 0 "Some (str ''https://a.io/cb'')" None ?w0 ?w1 "Inr ?url"]
    run
  show "take 1 [ProviderObj ?pr, ParamsObj ?ps] = [ProviderObj ?pr]"
    by simp
  let ?ex = "\<lparr>ex_options = \<lparr>opt_host = [], opt_path = [], opt_port = 443,
              opt_method = str ''POST'', opt_content_type = [], opt_content_length = 0\<rparr>,
            ex_written = [], ex_ended = True, ex_interpret = True\<rparr>"
  let ?chunks = "[str ''{\"access_token\":\"A\",'', str ''\"expires_in\":120}'']"
  let ?e = "\<lparr>heap = [], sent = [], delivered = []\<rparr>"
  have body: "foldl on_data [] ?chunks = str ''{\"access_token\":\"A\",\"expires_in\":120}''"
    by (simp add: on_data_def str_def)
  have reply: "Obj [(str ''access_token'', Str (str ''A'')), (str ''expires_in'', Num 120)] =
      (case JSON_parse (str ''{\"access_token\":\"A\",\"expires_in\":120}'') of
         None \<Rightarrow> Str (str ''{\"access_token\":\"A\",\"expires_in\":120}'') | Some v \<Rightarrow> v)"
    by (simp add: parse_access_expires_in)
  note ir = interpretReply_fields [OF reply get_member.simps(3) get_member.simps(3)
          get_member.simps(3) get_member.simps(3) get_member.simps(3), of ?e]
  have "\<exists>w'. respond ?ex ?chunks ?e = (w', Inr ())"
    unfolding respond_def on_end_def body
    by (simp add: bind_def callback_def ir)
  then obtain w' where r: "respond ?ex ?chunks ?e = (w', Inr ())" ..
  from descriptor_never_mutated [of _ _ _ ?e w' _ _ _ _ ?ex ?chunks _ _ "()"] r
  obtain tr where "w' = ?e\<lparr>heap := heap ?e @ [TokenObj tr],
      delivered := delivered ?e @ [TokenArg (length (heap ?e))]\<rparr>"
    by auto
  with r show "\<exists>tr. respond ?ex ?chunks ?e =
      (\<lparr>heap = [TokenObj tr], sent = [], delivered = [TokenArg 0]\<rparr>, Inr ())"
    by auto
qed

section \<open>Where the code departs from its documentation\<close>

lemmas request_eval =
  request_def https_request_def substring_def substring_from_def Let_def

text \<open>
  C3. The mapping \<open>{a: "x y", b: "1"}\<close>: \<^verbatim>\<open>buildQueryString\<close> encodes each value with
  \<^verbatim>\<open>encodeURIComponent\<close> and \<^verbatim>\<open>querystring.stringify\<close> encodes it again, so the space
  comes out as \<^verbatim>\<open>%2520\<close>, the encoding of the three characters \<^verbatim>\<open>%20\<close>.
\<close>

theorem buildQueryString_encodes_twice:
  "buildQueryString 0
     \<lparr>heap = [ParamsObj [(str ''a'', Some (str ''x y'')), (str ''b'', Some (str ''1''))]],
      sent = [], delivered = []\<rparr> =
   (\<lparr>heap = [ParamsObj [(str ''a'', Some (str ''x%20y'')), (str ''b'', Some (str ''1''))]],
      sent = [], delivered = []\<rparr>,
    Inr (str ''a=x%2520y&b=1''))"
  by (simp add: prog_eval)

text \<open>
  C2. \<^verbatim>\<open>GetUserInfo\<close> with the token \<open>T\<close>: \<^verbatim>\<open>request\<close> uses the payload only
  \<^verbatim>\<open>if (method === 'POST')\<close>, so the one GET that is sent has the path \<^verbatim>\<open>/me\<close> with no
  query string and an empty body; \<^verbatim>\<open>access_token=T\<close> is sent nowhere. A GET is the same
  request whatever its payload. The other half of the claim holds: the continuation gets
  the chunks of the body, concatenated and not interpreted.
\<close>

theorem GetUserInfo_drops_access_token:
  "GetUserInfo 0 (Some (str ''T''))
     \<lparr>heap = [ProviderObj \<lparr>clientId = Some (str ''id''), clientSecret = Some (str ''s/e=c''),
         authUri = None,
         accessTokenUri = Some (str ''https://graph.facebook.com/oauth/access_token''),
         userInfoUri = Some (str ''https://graph.facebook.com/me''),
         scope = None, state = None, offline = None\<rparr>],
      sent = [], delivered = []\<rparr> =
   (\<lparr>heap = [ProviderObj \<lparr>clientId = Some (str ''id''), clientSecret = Some (str ''s/e=c''),
         authUri = None,
         accessTokenUri = Some (str ''https://graph.facebook.com/oauth/access_token''),
         userInfoUri = Some (str ''https://graph.facebook.com/me''),
         scope = None, state = None, offline = None\<rparr>,
       ParamsObj [(str ''access_token'', Some (str ''T''))]],
      sent = [\<lparr>ex_options = \<lparr>opt_host = str ''graph.facebook.com'', opt_path = str ''/me'',
                 opt_port = 443, opt_method = str ''GET'',
                 opt_content_type = str ''application/x-www-form-urlencoded'',
                 opt_content_length = 0\<rparr>,
               ex_written = [], ex_ended = True, ex_interpret = False\<rparr>],
      delivered = []\<rparr>,
    Inr ())
   \<and> request uri (Some (str ''GET'')) payload b w = request uri (Some (str ''GET'')) [] b w
   \<and> respond \<lparr>ex_options = \<lparr>opt_host = str ''graph.facebook.com'', opt_path = str ''/me'',
                 opt_port = 443, opt_method = str ''GET'',
                 opt_content_type = str ''application/x-www-form-urlencoded'',
                 opt_content_length = 0\<rparr>,
               ex_written = [], ex_ended = True, ex_interpret = False\<rparr>
       [str ''{\"id\":'', str ''1}''] \<lparr>heap = [], sent = [], delivered = []\<rparr> =
     (\<lparr>heap = [], sent = [], delivered = [BodyArg (str ''{\"id\":1}'')]\<rparr>, Inr ())"
proof (intro conjI)
  show "GetUserInfo 0 (Some (str ''T''))
     \<lparr>heap = [ProviderObj \<lparr>clientId = Some (str ''id''), clientSecret = Some (str ''s/e=c''),
         authUri = None,
         accessTokenUri = Some (str ''https://graph.facebook.com/oauth/access_token''),
         userInfoUri = Some (str ''https://graph.facebook.com/me''),
         scope = None, state = None, offline = None\<rparr>],
      sent = [], delivered = []\<rparr> =
   (\<lparr>heap = [ProviderObj \<lparr>clientId = Some (str ''id''), clientSecret = Some (str ''s/e=c''),
         authUri = None,
         accessTokenUri = Some (str ''https://graph.facebook.com/oauth/access_token''),
         userInfoUri = Some (str ''https://graph.facebook.com/me''),
         scope = None, state = None, offline = None\<rparr>,
       ParamsObj [(str ''access_token'', Some (str ''T''))]],
      sent = [\<lparr>ex_options = \<lparr>opt_host = str ''graph.facebook.com'', opt_path = str ''/me'',
                 opt_port = 443, opt_method = str ''GET'',
                 opt_content_type = str ''application/x-www-form-urlencoded'',
                 opt_content_length = 0\<rparr>,
               ex_written = [], ex_ended = True, ex_interpret = False\<rparr>],
      delivered = []\<rparr>,
    Inr ())"
    by (simp add: GetUserInfo_def prog_eval request_eval)
next
  have get: "truthy_string (Some (str ''GET''))" "ToString (Some (str ''GET'')) \<noteq> str ''POST''"
    by (simp_all add: truthy_string_def ToString_def str_def)
  show "request uri (Some (str ''GET'')) payload b w = request uri (Some (str ''GET'')) [] b w"
    by (cases uri) (simp_all add: request_def Let_def get)
next
  show "respond \<lparr>ex_options = \<lparr>opt_host = str ''graph.facebook.com'', opt_path = str ''/me'',
                 opt_port = 443, opt_method = str ''GET'',
                 opt_content_type = str ''application/x-www-form-urlencoded'',
                 opt_content_length = 0\<rparr>,
               ex_written = [], ex_ended = True, ex_interpret = False\<rparr>
       [str ''{\"id\":'', str ''1}''] \<lparr>heap = [], sent = [], delivered = []\<rparr> =
     (\<lparr>heap = [], sent = [], delivered = [BodyArg (str ''{\"id\":1}'')]\<rparr>, Inr ())"
    by (simp add: respond_def on_end_def on_data_def callback_def str_def)
qed

text \<open>
  C7. \<^verbatim>\<open>AuthenticateByCode\<close> with the secret \<^verbatim>\<open>s/e=c\<close> and the code \<^verbatim>\<open>4/0AX\<close>: the one POST
  carries \<^verbatim>\<open>client_secret=s%252Fe%253Dc\<close> and \<^verbatim>\<open>code=4%252F0AX\<close>, which a form decoder
  reads as \<^verbatim>\<open>s%2Fe%3Dc\<close> and \<^verbatim>\<open>4%2F0AX\<close>; and when the response body is \<^verbatim>\<open>null\<close> the
  handler raises and the continuation is not called.
\<close>

theorem AuthenticateByCode_encodes_twice:
  "AuthenticateByCode 0 (Some (str ''https://a.io/cb'')) (Some (str ''4/0AX''))
     \<lparr>heap = [ProviderObj \<lparr>clientId = Some (str ''id''), clientSecret = Some (str ''s/e=c''),
         authUri = None,
         accessTokenUri = Some (str ''https://graph.facebook.com/oauth/access_token''),
         userInfoUri = Some (str ''https://graph.facebook.com/me''),
         scope = None, state = None, offline = None\<rparr>],
      sent = [], delivered = []\<rparr> =
   (\<lparr>heap = [ProviderObj \<lparr>clientId = Some (str ''id''), clientSecret = Some (str ''s/e=c''),
         authUri = None,
         accessTokenUri = Some (str ''https://graph.facebook.com/oauth/access_token''),
         userInfoUri = Some (str ''https://graph.facebook.com/me''),
         scope = None, state = None, offline = None\<rparr>,
       ParamsObj [(str ''client_id'', Some (str ''id'')),
         (str ''client_secret'', Some (str ''s%2Fe%3Dc'')),
         (str ''redirect_uri'', Some (str ''https%3A%2F%2Fa.io%2Fcb'')),
         (str ''code'', Some (str ''4%2F0AX'')),
         (str ''grant_type'', Some (str ''authorization_code''))]],
      sent = [\<lparr>ex_options = \<lparr>opt_host = str ''graph.facebook.com'',
                 opt_path = str ''/oauth/access_token'',
                 opt_port = 443, opt_method = str ''POST'',
                 opt_content_type = str ''application/x-www-form-urlencoded'',
                 opt_content_length = 130\<rparr>,
               ex_written = [str ''client_id=id&client_secret=s%252Fe%253Dc&redirect_uri=https%253A%252F%252Fa.io%252Fcb&code=4%252F0AX&grant_type=authorization_code''],
               ex_ended = True, ex_interpret = True\<rparr>],
      delivered = []\<rparr>,
    Inr ())
   \<and> respond \<lparr>ex_options = \<lparr>opt_host = str ''graph.facebook.com'',
                 opt_path = str ''/oauth/access_token'',
                 opt_port = 443, opt_method = str ''POST'',
                 opt_content_type = str ''application/x-www-form-urlencoded'',
                 opt_content_length = 130\<rparr>,
               ex_written = [str ''client_id=id&client_secret=s%252Fe%253Dc&redirect_uri=https%253A%252F%252Fa.io%252Fcb&code=4%252F0AX&grant_type=authorization_code''],
               ex_ended = True, ex_interpret = True\<rparr>
       [str ''null''] \<lparr>heap = [], sent = [], delivered = []\<rparr> =
     (\<lparr>heap = [TokenObj \<lparr>accessToken = Null, refreshToken = Null, expires = Null\<rparr>],
        sent = [], delivered = []\<rparr>,
      Inl TypeError)"
proof
  show "AuthenticateByCode 0 (Some (str ''https://a.io/cb'')) (Some (str ''4/0AX''))
     \<lparr>heap = [ProviderObj \<lparr>clientId = Some (str ''id''), clientSecret = Some (str ''s/e=c''),
         authUri = None,
         accessTokenUri = Some (str ''https://graph.facebook.com/oauth/access_token''),
         userInfoUri = Some (str ''https://graph.facebook.com/me''),
         scope = None, state = None, offline = None\<rparr>],
      sent = [], delivered = []\<rparr> =
   (\<lparr>heap = [ProviderObj \<lparr>clientId = Some (str ''id''), clientSecret = Some (str ''s/e=c''),
         authUri = None,
         accessTokenUri = Some (str ''https://graph.facebook.com/oauth/access_token''),
         userInfoUri = Some (str ''https://graph.facebook.com/me''),
         scope = None, state = None, offline = None\<rparr>,
       ParamsObj [(str ''client_id'', Some (str ''id'')),
         (str ''client_secret'', Some (str ''s%2Fe%3Dc'')),
         (str ''redirect_uri'', Some (str ''https%3A%2F%2Fa.io%2Fcb'')),
         (str ''code'', Some (str ''4%2F0AX'')),
         (str ''grant_type'', Some (str ''authorization_code''))]],
      sent = [\<lparr>ex_options = \<lparr>opt_host = str ''graph.facebook.com'',
                 opt_path = str ''/oauth/access_token'',
                 opt_port = 443, opt_method = str ''POST'',
                 opt_content_type = str ''application/x-www-form-urlencoded'',
                 opt_content_length = 130\<rparr>,
               ex_written = [str ''client_id=id&client_secret=s%252Fe%253Dc&redirect_uri=https%253A%252F%252Fa.io%252Fcb&code=4%252F0AX&grant_type=authorization_code''],
               ex_ended = True, ex_interpret = True\<rparr>],
      delivered = []\<rparr>,
    Inr ())"
    by (simp add: AuthenticateByCode_def prog_eval request_eval)
next
  have body: "foldl on_data [] [str ''null''] = str ''null''"
    by (simp add: on_data_def)
  show "respond \<lparr>ex_options = \<lparr>opt_host = str ''graph.facebook.com'',
                 opt_path = str ''/oauth/access_token'',
                 opt_port = 443, opt_method = str ''POST'',
                 opt_content_type = str ''application/x-www-form-urlencoded'',
                 opt_content_length = 130\<rparr>,
               ex_written = [str ''client_id=id&client_secret=s%252Fe%253Dc&redirect_uri=https%253A%252F%252Fa.io%252Fcb&code=4%252F0AX&grant_type=authorization_code''],
               ex_ended = True, ex_interpret = True\<rparr>
       [str ''null''] \<lparr>heap = [], sent = [], delivered = []\<rparr> =
     (\<lparr>heap = [TokenObj \<lparr>accessToken = Null, refreshToken = Null, expires = Null\<rparr>],
        sent = [], delivered = []\<rparr>,
      Inl TypeError)"
    unfolding respond_def on_end_def body
    by (simp add: bind_def interpretReply_null [OF parse_null])
qed

end
